theory Spec2Isabelle
  imports Main "HOL-Library.Extended_Nat" "HOL-Library.Monad_Syntax"
begin

section \<open>The relational store of server.js\<close>

text \<open>
  The four tables that \<open>initDB\<close> creates (server.js, lines 25 to 104), one record per
  table, one field per column, in the order of the \<open>CREATE TABLE\<close> statements.  A column
  declared \<open>NOT NULL\<close> (or \<open>PRIMARY KEY\<close>) has its plain type; every other column is
  nullable and has an \<open>option\<close> type, \<open>None\<close> being SQL \<open>NULL\<close>.  \<open>SERIAL\<close> and
  \<open>INTEGER\<close> are \<open>int\<close>, a timestamp is the seconds since the epoch, a \<open>DATE\<close> is
  the seconds since the epoch at the midnight that begins the day, and \<open>DECIMAL(p,2)\<close>
  values are counted in hundredths.
\<close>

record company =
  c_id :: int
  c_company_name :: string
  c_email :: string
  c_phone :: "string option"
  c_address_line1 :: "string option"
  c_address_line2 :: "string option"
  c_city :: "string option"
  c_postcode :: "string option"
  c_vat_number :: "string option"
  c_account_status :: "string option"
  c_trial_ends_at :: "nat option"
  c_markup_percentage :: "int option"
  c_created_at :: "nat option"

text \<open>
  Modelled from the spec: the library \<open>bcryptjs\<close> is not part of server.js.  Section 4.1
  of the specification describes its hash as salted, with a tunable cost factor, and its
  verification as recomputing and comparing.  The text stored in \<open>users.password_hash\<close>
  is kept in its three parts: the cost factor, the salt and the digest.
\<close>

record pwhash =
  ph_cost :: nat
  ph_salt :: string
  ph_digest :: string

text \<open>
  \<open>password_hash VARCHAR(255)\<close> (line 50): the stored text contains the salt and the
  digest, so a hash whose salt and digest together exceed the width does not fit.
\<close>

definition password_hash_width :: nat where
  "password_hash_width = 255"

definition pwhash_col :: "pwhash \<Rightarrow> pwhash option" where
  "pwhash_col h =
     (if length (ph_salt h) + length (ph_digest h) \<le> password_hash_width then Some h
      else None)"

record user =
  u_id :: int
  u_company_id :: "int option"
  u_email :: string
  u_password_hash :: pwhash
  u_first_name :: string
  u_last_name :: string
  u_phone :: "string option"
  u_role :: "string option"
  u_is_active :: "bool option"
  u_created_at :: "nat option"

record branding =
  b_id :: int
  b_company_id :: "int option"
  b_logo_url :: "string option"
  b_primary_colour :: "string option"
  b_secondary_colour :: "string option"
  b_quote_header_text :: "string option"
  b_quote_footer_text :: "string option"
  b_created_at :: "nat option"

record quote =
  q_id :: int
  q_company_id :: "int option"
  q_created_by :: "int option"
  q_quote_reference :: string
  q_status :: "string option"
  q_customer_name :: "string option"
  q_customer_email :: "string option"
  q_customer_phone :: "string option"
  q_customer_address :: "string option"
  q_customer_postcode :: "string option"
  q_material_name :: "string option"
  q_material_brand :: "string option"
  q_thickness :: "int option"
  q_edge_profile :: "string option"
  q_slabs_required :: "int option"
  q_trade_price_ex_vat :: "int option"
  q_trade_price_inc_vat :: "int option"
  q_customer_price_ex_vat :: "int option"
  q_customer_price_inc_vat :: "int option"
  q_quote_data :: "string option"
  q_valid_until :: "nat option"
  q_created_at :: "nat option"

text \<open>
  The store: the rows of each table in insertion order, and the last value handed out by
  the sequence behind each \<open>SERIAL\<close> column.
\<close>

record db =
  companies :: "company list"
  users :: "user list"
  company_branding :: "branding list"
  quotes :: "quote list"
  companies_id_seq :: int
  users_id_seq :: int
  company_branding_id_seq :: int
  quotes_id_seq :: int

definition empty_db :: db where
  "empty_db = \<lparr>companies = [], users = [], company_branding = [], quotes = [],
     companies_id_seq = 0, users_id_seq = 0, company_branding_id_seq = 0,
     quotes_id_seq = 0\<rparr>"

datatype pg_error =
    ConnectionError
  | DataException
  | NotNullViolation
  | UniqueViolation
  | ForeignKeyViolation

subsection \<open>Column domains\<close>

text \<open>
  \<open>VARCHAR(n)\<close>: a text that contains the character NUL is rejected, and so is a text
  longer than \<open>n\<close>, unless everything beyond its first \<open>n\<close> characters is a space, in
  which case the store cuts it to \<open>n\<close> characters.
\<close>

definition varchar :: "nat \<Rightarrow> string \<Rightarrow> string option" where
  "varchar n s =
     (if CHR 0x00 \<in> set s then None
      else if length s \<le> n then Some s
      else if list_all (\<lambda>c. c = CHR '' '') (drop n s) then Some (take n s)
      else None)"

text \<open>A nullable column: \<open>NULL\<close> always fits.  The outer \<open>None\<close> is the rejection.\<close>

definition nullable :: "('a \<Rightarrow> 'a option) \<Rightarrow> 'a option \<Rightarrow> 'a option option" where
  "nullable col v = (case v of None \<Rightarrow> Some None | Some x \<Rightarrow> map_option Some (col x))"

text \<open>\<open>TEXT\<close>: every text without the character NUL fits.\<close>

definition text_col :: "string \<Rightarrow> string option" where
  "text_col s = (if CHR 0x00 \<in> set s then None else Some s)"

text \<open>\<open>INTEGER\<close> and \<open>SERIAL\<close>: a signed 32-bit integer.\<close>

definition int4 :: "int \<Rightarrow> int option" where
  "int4 v = (if - (2 ^ 31) \<le> v \<and> v < 2 ^ 31 then Some v else None)"

text \<open>\<open>DECIMAL(10,2)\<close> in hundredths: fewer than ten digits before rounding away the scale.\<close>

definition decimal_10_2 :: "int \<Rightarrow> int option" where
  "decimal_10_2 v = (if \<bar>v\<bar> < 10 ^ 10 then Some v else None)"

text \<open>
  The parameters that a statement compares with, or stores in, an \<open>INTEGER\<close> column:
  the store reads each as a 32-bit integer before it runs the statement, and rejects the
  statement when one is out of range.
\<close>

definition integers :: "int list \<Rightarrow> bool" where
  "integers ps = list_all (\<lambda>p. int4 p \<noteq> None) ps"

subsection \<open>The statements the handlers send\<close>

text \<open>
  A statement returns its result or the error the store raises, and the store afterwards.
  A statement that fails changes no row.  A parameter that its column rejects fails the
  statement before an id is drawn from the sequence; an \<open>INSERT\<close> that fails on a
  constraint has drawn its id.  A sequence that has reached the end of the 32-bit range
  raises instead of handing out an id.
\<close>

type_synonym 'a stmt = "db \<Rightarrow> (pg_error + 'a) \<times> db"

text \<open>\<open>SELECT id FROM users WHERE email = $1\<close> (line 140); \<open>email = NULL\<close> holds for no row.\<close>

definition select_user_ids_by_email :: "string option \<Rightarrow> int list stmt" where
  "select_user_ids_by_email email d =
     (Inr (case email of None \<Rightarrow> []
           | Some e \<Rightarrow> map u_id (filter (\<lambda>u. u_email u = e) (users d))), d)"

text \<open>
  \<open>INSERT INTO companies (company_name, email, phone, postcode) VALUES ($1, $2, $3, $4)
  RETURNING id\<close> (lines 146 to 150).  The other columns take their defaults.
\<close>

definition insert_company ::
  "string option \<Rightarrow> string option \<Rightarrow> string option \<Rightarrow> string option \<Rightarrow> nat \<Rightarrow> int stmt" where
  "insert_company company_name email phone postcode now d =
     (let new_id = companies_id_seq d + 1;
          d1 = d\<lparr>companies_id_seq := new_id\<rparr>
      in if \<not> integers [new_id] then (Inl DataException, d)
         else
         case (nullable (varchar 255) company_name, nullable (varchar 255) email,
               nullable (varchar 20) phone, nullable (varchar 10) postcode) of
           (Some n, Some e, Some ph, Some pc) \<Rightarrow>
             (case (n, e) of
                (Some n', Some e') \<Rightarrow>
                  if new_id \<in> set (map c_id (companies d))
                     \<or> e' \<in> set (map c_email (companies d))
                  then (Inl UniqueViolation, d1)
                  else (Inr new_id,
                        d1\<lparr>companies := companies d @
                          [\<lparr>c_id = new_id, c_company_name = n', c_email = e', c_phone = ph,
                            c_address_line1 = None, c_address_line2 = None, c_city = None,
                            c_postcode = pc, c_vat_number = None,
                            c_account_status = Some ''trial'',
                            c_trial_ends_at = Some (now + 14 * 86400),
                            c_markup_percentage = Some 2000,
                            c_created_at = Some now\<rparr>]\<rparr>)
              | _ \<Rightarrow> (Inl NotNullViolation, d1))
         | _ \<Rightarrow> (Inl DataException, d))"

text \<open>\<open>INSERT INTO company_branding (company_id) VALUES ($1)\<close> (lines 154 to 157).\<close>

definition insert_branding :: "int \<Rightarrow> nat \<Rightarrow> unit stmt" where
  "insert_branding company_id now d =
     (let new_id = company_branding_id_seq d + 1;
          d1 = d\<lparr>company_branding_id_seq := new_id\<rparr>
      in if \<not> integers [company_id, new_id] then (Inl DataException, d)
         else if new_id \<in> set (map b_id (company_branding d))
            \<or> Some company_id \<in> set (map b_company_id (company_branding d))
         then (Inl UniqueViolation, d1)
         else if company_id \<notin> set (map c_id (companies d))
         then (Inl ForeignKeyViolation, d1)
         else (Inr (),
               d1\<lparr>company_branding := company_branding d @
                 [\<lparr>b_id = new_id, b_company_id = Some company_id, b_logo_url = None,
                   b_primary_colour = Some ''#033f2a'',
                   b_secondary_colour = Some ''#f6d466'',
                   b_quote_header_text = None, b_quote_footer_text = None,
                   b_created_at = Some now\<rparr>]\<rparr>))"

text \<open>
  \<open>INSERT INTO users (company_id, email, password_hash, first_name, last_name, phone,
  role) VALUES ($1, $2, $3, $4, $5, $6, 'trade_admin') RETURNING id\<close> (lines 161 to 165).
\<close>

definition insert_user ::
  "int \<Rightarrow> string option \<Rightarrow> pwhash \<Rightarrow> string option \<Rightarrow> string option \<Rightarrow> string option
     \<Rightarrow> nat \<Rightarrow> int stmt" where
  "insert_user company_id email password_hash first_name last_name phone now d =
     (let new_id = users_id_seq d + 1;
          d1 = d\<lparr>users_id_seq := new_id\<rparr>
      in if \<not> integers [company_id, new_id] then (Inl DataException, d)
         else
         case (nullable (varchar 255) email, nullable (varchar 100) first_name,
               nullable (varchar 100) last_name, nullable (varchar 20) phone,
               pwhash_col password_hash) of
           (Some em, Some fnm, Some lnm, Some phn, Some _) \<Rightarrow>
             (case (em, fnm, lnm) of
                (Some em', Some fnm', Some lnm') \<Rightarrow>
                  if new_id \<in> set (map u_id (users d)) \<or> em' \<in> set (map u_email (users d))
                  then (Inl UniqueViolation, d1)
                  else if company_id \<notin> set (map c_id (companies d))
                  then (Inl ForeignKeyViolation, d1)
                  else (Inr new_id,
                        d1\<lparr>users := users d @
                          [\<lparr>u_id = new_id, u_company_id = Some company_id, u_email = em',
                            u_password_hash = password_hash, u_first_name = fnm',
                            u_last_name = lnm', u_phone = phn,
                            u_role = Some ''trade_admin'', u_is_active = Some True,
                            u_created_at = Some now\<rparr>]\<rparr>)
              | _ \<Rightarrow> (Inl NotNullViolation, d1))
         | _ \<Rightarrow> (Inl DataException, d))"


text \<open>
  \<open>SELECT u.*, c.company_name, c.account_status FROM users u JOIN companies c
  ON u.company_id = c.id WHERE u.email = $1\<close> (lines 191 to 197).  An inner join: a user
  whose \<open>company_id\<close> is \<open>NULL\<close> or names no company yields no row.  In a row of the
  result \<open>company_id\<close> is therefore never \<open>NULL\<close>: the row carries it as an \<open>int\<close>,
  next to the user's columns.
\<close>

definition select_login_rows ::
  "string option \<Rightarrow> (user \<times> int \<times> string \<times> string option) list stmt" where
  "select_login_rows email d =
     (Inr (case email of None \<Rightarrow> []
           | Some e \<Rightarrow>
               [(u, c_id c, c_company_name c, c_account_status c).
                  u \<leftarrow> users d, u_email u = e,
                  c \<leftarrow> companies d, u_company_id u = Some (c_id c)]), d)"

text \<open>The row of \<open>GET /api/me\<close> (lines 240 to 247).\<close>

record me_row =
  me_id :: int
  me_first_name :: string
  me_last_name :: string
  me_email :: string
  me_role :: "string option"
  me_company_id :: int
  me_company_name :: string
  me_account_status :: "string option"
  me_trial_ends_at :: "nat option"

definition select_me :: "int \<Rightarrow> me_row list stmt" where
  "select_me user_id d =
     (if \<not> integers [user_id] then (Inl DataException, d)
      else
      (Inr [\<lparr>me_id = u_id u, me_first_name = u_first_name u, me_last_name = u_last_name u,
            me_email = u_email u, me_role = u_role u, me_company_id = c_id c,
            me_company_name = c_company_name c, me_account_status = c_account_status c,
            me_trial_ends_at = c_trial_ends_at c\<rparr>.
             u \<leftarrow> users d, u_id u = user_id,
             c \<leftarrow> companies d, u_company_id u = Some (c_id c)], d))"

text \<open>
  \<open>SELECT cb.*, c.company_name, c.email, c.phone, c.address_line1, c.address_line2,
  c.city, c.postcode FROM company_branding cb JOIN companies c ON cb.company_id = c.id
  WHERE cb.company_id = $1\<close> (lines 262 to 269).
\<close>

record branding_row =
  br_branding :: branding
  br_company_name :: string
  br_email :: string
  br_phone :: "string option"
  br_address_line1 :: "string option"
  br_address_line2 :: "string option"
  br_city :: "string option"
  br_postcode :: "string option"

definition select_branding :: "int \<Rightarrow> branding_row list stmt" where
  "select_branding company_id d =
     (if \<not> integers [company_id] then (Inl DataException, d)
      else
      (Inr [\<lparr>br_branding = cb, br_company_name = c_company_name c, br_email = c_email c,
            br_phone = c_phone c, br_address_line1 = c_address_line1 c,
            br_address_line2 = c_address_line2 c, br_city = c_city c,
            br_postcode = c_postcode c\<rparr>.
             cb \<leftarrow> company_branding d, b_company_id cb = Some company_id,
             c \<leftarrow> companies d, b_company_id cb = Some (c_id c)], d))"

text \<open>
  \<open>COALESCE($n, column)\<close>: the parameter when it is not \<open>NULL\<close>, the stored value
  otherwise.
\<close>

definition coalesce :: "'a option \<Rightarrow> 'a option \<Rightarrow> 'a option" where
  "coalesce p old = (case p of None \<Rightarrow> old | Some v \<Rightarrow> Some v)"

text \<open>
  \<open>UPDATE company_branding SET logo_url = COALESCE($1, logo_url), ... WHERE company_id =
  $6\<close> (lines 281 to 290).  Each parameter is read as a value of its column before any
  row is looked at, so a parameter that its column rejects fails the statement whether or
  not a row matches; a stored value already fits its column.
\<close>

definition update_branding ::
  "string option \<Rightarrow> string option \<Rightarrow> string option \<Rightarrow> string option \<Rightarrow> string option
     \<Rightarrow> int \<Rightarrow> unit stmt" where
  "update_branding logo_url primary_colour secondary_colour header_text footer_text
     company_id d =
     (if \<not> integers [company_id] then (Inl DataException, d)
      else
        (case (nullable (varchar 500) logo_url, nullable (varchar 7) primary_colour,
               nullable (varchar 7) secondary_colour, nullable text_col header_text,
               nullable text_col footer_text) of
           (Some lu, Some pc, Some sc, Some ht, Some ft) \<Rightarrow>
             (Inr (),
              d\<lparr>company_branding :=
                  map (\<lambda>b. if b_company_id b = Some company_id
                            then b\<lparr>b_logo_url := coalesce lu (b_logo_url b),
                                   b_primary_colour := coalesce pc (b_primary_colour b),
                                   b_secondary_colour := coalesce sc (b_secondary_colour b),
                                   b_quote_header_text := coalesce ht (b_quote_header_text b),
                                   b_quote_footer_text := coalesce ft (b_quote_footer_text b)\<rparr>
                            else b)
                    (company_branding d)\<rparr>)
         | _ \<Rightarrow> (Inl DataException, d)))"

text \<open>
  \<open>UPDATE companies SET company_name = COALESCE($1, company_name), ... WHERE id = $8\<close>
  (lines 302 to 313).  \<open>company_name\<close> is \<open>NOT NULL\<close>, so its \<open>COALESCE\<close> is never
  \<open>NULL\<close>.  As in \<open>update_branding\<close>, a parameter that its column rejects fails the
  statement whether or not a row matches.
\<close>

definition update_company ::
  "string option \<Rightarrow> string option \<Rightarrow> string option \<Rightarrow> string option \<Rightarrow> string option
     \<Rightarrow> string option \<Rightarrow> string option \<Rightarrow> int \<Rightarrow> unit stmt" where
  "update_company company_name phone address_line1 address_line2 city postcode vat_number
     company_id d =
     (if \<not> integers [company_id] then (Inl DataException, d)
      else
        (case (nullable (varchar 255) company_name, nullable (varchar 20) phone,
               nullable (varchar 255) address_line1, nullable (varchar 255) address_line2,
               nullable (varchar 100) city, nullable (varchar 10) postcode,
               nullable (varchar 20) vat_number) of
           (Some cn, Some ph, Some a1, Some a2, Some ci, Some pc, Some vn) \<Rightarrow>
             (Inr (),
              d\<lparr>companies :=
                  map (\<lambda>c. if c_id c = company_id
                            then c\<lparr>c_company_name :=
                                     (case cn of None \<Rightarrow> c_company_name c | Some v \<Rightarrow> v),
                                   c_phone := coalesce ph (c_phone c),
                                   c_address_line1 := coalesce a1 (c_address_line1 c),
                                   c_address_line2 := coalesce a2 (c_address_line2 c),
                                   c_city := coalesce ci (c_city c),
                                   c_postcode := coalesce pc (c_postcode c),
                                   c_vat_number := coalesce vn (c_vat_number c)\<rparr>
                            else c)
                    (companies d)\<rparr>)
         | _ \<Rightarrow> (Inl DataException, d)))"

text \<open>
  The body of \<open>POST /api/quotes\<close> (lines 322 to 325).  A field that the request leaves
  out is \<open>undefined\<close> in JavaScript and reaches the store as \<open>NULL\<close>: \<open>None\<close>.
  \<open>qb_quoteData\<close> is the text \<open>JSON.stringify(quoteData)\<close>.
\<close>

record quote_body =
  qb_customerName :: "string option"
  qb_customerEmail :: "string option"
  qb_customerPhone :: "string option"
  qb_customerAddress :: "string option"
  qb_customerPostcode :: "string option"
  qb_materialName :: "string option"
  qb_materialBrand :: "string option"
  qb_thickness :: "int option"
  qb_edgeProfile :: "string option"
  qb_slabsRequired :: "int option"
  qb_tradePriceExVat :: "int option"
  qb_tradePriceIncVat :: "int option"
  qb_customerPriceExVat :: "int option"
  qb_customerPriceIncVat :: "int option"
  qb_quoteData :: "string option"

text \<open>
  The row that \<open>INSERT INTO quotes (...) VALUES ($1, ..., $18) RETURNING *\<close> (lines 330 to
  342) builds, each parameter cut to its column; \<open>None\<close> when a column rejects its value.
  \<open>status\<close>, \<open>valid_until\<close> and \<open>created_at\<close> take their defaults; \<open>valid_until\<close>
  is the date thirty days after the current date.
\<close>

definition quote_row ::
  "int \<Rightarrow> int \<Rightarrow> int \<Rightarrow> string \<Rightarrow> quote_body \<Rightarrow> nat \<Rightarrow> quote option" where
  "quote_row new_id company_id created_by quote_ref body now =
     do {
       qr \<leftarrow> varchar 20 quote_ref;
       cn \<leftarrow> nullable (varchar 255) (qb_customerName body);
       ce \<leftarrow> nullable (varchar 255) (qb_customerEmail body);
       cp \<leftarrow> nullable (varchar 20) (qb_customerPhone body);
       ca \<leftarrow> nullable text_col (qb_customerAddress body);
       cpc \<leftarrow> nullable (varchar 10) (qb_customerPostcode body);
       mn \<leftarrow> nullable (varchar 255) (qb_materialName body);
       mb \<leftarrow> nullable (varchar 255) (qb_materialBrand body);
       th \<leftarrow> nullable int4 (qb_thickness body);
       ep \<leftarrow> nullable (varchar 50) (qb_edgeProfile body);
       sr \<leftarrow> nullable int4 (qb_slabsRequired body);
       tpe \<leftarrow> nullable decimal_10_2 (qb_tradePriceExVat body);
       tpi \<leftarrow> nullable decimal_10_2 (qb_tradePriceIncVat body);
       cpe \<leftarrow> nullable decimal_10_2 (qb_customerPriceExVat body);
       cpi \<leftarrow> nullable decimal_10_2 (qb_customerPriceIncVat body);
       Some \<lparr>q_id = new_id, q_company_id = Some company_id, q_created_by = Some created_by,
             q_quote_reference = qr, q_status = Some ''draft'', q_customer_name = cn,
             q_customer_email = ce, q_customer_phone = cp, q_customer_address = ca,
             q_customer_postcode = cpc, q_material_name = mn, q_material_brand = mb,
             q_thickness = th, q_edge_profile = ep, q_slabs_required = sr,
             q_trade_price_ex_vat = tpe, q_trade_price_inc_vat = tpi,
             q_customer_price_ex_vat = cpe, q_customer_price_inc_vat = cpi,
             q_quote_data = qb_quoteData body,
             q_valid_until = Some ((now div 86400 + 30) * 86400),
             q_created_at = Some now\<rparr>
     }"

definition insert_quote :: "int \<Rightarrow> int \<Rightarrow> string \<Rightarrow> quote_body \<Rightarrow> nat \<Rightarrow> quote stmt" where
  "insert_quote company_id created_by quote_ref body now d =
     (let new_id = quotes_id_seq d + 1;
          d1 = d\<lparr>quotes_id_seq := new_id\<rparr>
      in if \<not> integers [company_id, created_by, new_id] then (Inl DataException, d)
         else
         case quote_row new_id company_id created_by quote_ref body now of
           None \<Rightarrow> (Inl DataException, d)
         | Some row \<Rightarrow>
             if new_id \<in> set (map q_id (quotes d))
                \<or> q_quote_reference row \<in> set (map q_quote_reference (quotes d))
             then (Inl UniqueViolation, d1)
             else if company_id \<notin> set (map c_id (companies d))
                     \<or> created_by \<notin> set (map u_id (users d))
             then (Inl ForeignKeyViolation, d1)
             else (Inr row, d1\<lparr>quotes := quotes d @ [row]\<rparr>))"

text \<open>
  \<open>LEFT JOIN users u ON q.created_by = u.id\<close>, selecting \<open>q.*, u.first_name,
  u.last_name\<close>: a quote without a matching user is kept, with \<open>NULL\<close> names.
\<close>

definition left_join_users ::
  "db \<Rightarrow> quote \<Rightarrow> (quote \<times> string option \<times> string option) list" where
  "left_join_users d q =
     (case filter (\<lambda>u. q_created_by q = Some (u_id u)) (users d) of
        [] \<Rightarrow> [(q, None, None)]
      | us \<Rightarrow> map (\<lambda>u. (q, Some (u_first_name u), Some (u_last_name u))) us)"

text \<open>
  \<open>... WHERE q.company_id = $1 ORDER BY q.created_at DESC\<close> (lines 354 to 361).  In a
  descending order \<open>NULL\<close> comes first.
\<close>

definition created_at_key :: "quote \<times> string option \<times> string option \<Rightarrow> enat" where
  "created_at_key r = (case q_created_at (fst r) of None \<Rightarrow> \<infinity> | Some t \<Rightarrow> enat t)"

definition select_quotes :: "int \<Rightarrow> (quote \<times> string option \<times> string option) list stmt" where
  "select_quotes company_id d =
     (if \<not> integers [company_id] then (Inl DataException, d)
      else
      (Inr (rev (sort_key created_at_key
             (concat (map (left_join_users d)
                (filter (\<lambda>q. q_company_id q = Some company_id) (quotes d)))))), d))"

text \<open>\<open>... WHERE q.id = $1 AND q.company_id = $2\<close> (lines 371 to 377).\<close>

definition select_quote ::
  "int \<Rightarrow> int \<Rightarrow> (quote \<times> string option \<times> string option) list stmt" where
  "select_quote quote_id company_id d =
     (if \<not> integers [quote_id, company_id] then (Inl DataException, d)
      else
      (Inr (concat (map (left_join_users d)
             (filter (\<lambda>q. q_id q = quote_id \<and> q_company_id q = Some company_id)
                (quotes d)))), d))"

text \<open>
  \<open>UPDATE quotes SET status = $1 WHERE id = $2 AND company_id = $3\<close> (lines 394 to 397).
  A \<open>NULL\<close> parameter stores \<open>NULL\<close>; a status that the column rejects fails the
  statement whether or not a row matches.
\<close>

definition update_quote_status :: "string option \<Rightarrow> int \<Rightarrow> int \<Rightarrow> unit stmt" where
  "update_quote_status status quote_id company_id d =
     (if \<not> integers [quote_id, company_id] then (Inl DataException, d)
      else
        (case nullable (varchar 20) status of
           Some st \<Rightarrow>
             (Inr (),
              d\<lparr>quotes :=
                  map (\<lambda>q. if q_id q = quote_id \<and> q_company_id q = Some company_id
                            then q\<lparr>q_status := st\<rparr> else q)
                    (quotes d)\<rparr>)
         | None \<Rightarrow> (Inl DataException, d)))"


section \<open>The libraries and the environment\<close>

text \<open>
  Modelled from the spec: the library \<open>jsonwebtoken\<close> is not part of server.js.  By
  section 4.2 of the specification a token embeds the three claims and an expiry, and is
  signed; verification rejects a malformed token, an invalid signature and an expired
  token.  The payload is the object that \<open>jwt.sign\<close> is given (lines 168 to 172 and 210
  to 214) with the two time stamps the library adds.
\<close>

record jwt_payload =
  userId :: int
  companyId :: int
  role :: "string option"
  iat :: nat
  exp :: nat

text \<open>
  Modelled from the spec: a token of \<open>jsonwebtoken\<close>, which is not part of server.js,
  before it is put into text: the payload and its signature.
\<close>

record jwt =
  jwt_payload :: jwt_payload
  jwt_signature :: string

text \<open>
  What the two libraries compute is a parameter of the model: the digest that
  \<open>bcryptjs\<close> computes from a cost, a salt and a key, the signature of \<open>jsonwebtoken\<close>,
  and the text form of a token with its parser.
\<close>

record lib =
  bcrypt_digest :: "nat \<Rightarrow> string \<Rightarrow> string \<Rightarrow> string"
  jwt_hmac :: "string \<Rightarrow> jwt_payload \<Rightarrow> string"
  jwt_encode :: "jwt \<Rightarrow> string"
  jwt_decode :: "string \<Rightarrow> jwt option"

datatype js_error = IllegalArguments | JsonWebTokenError | TokenExpiredError

text \<open>
  Modelled from the spec: the key that bcrypt, the hash that lines 3, 160 and 204 name,
  takes from a password; \<open>bcryptjs\<close> is not part of server.js.  bcrypt reads at most the
  first 72 bytes of a password.  A character of a \<open>string\<close> is a byte.
\<close>

definition bcrypt_key :: "string \<Rightarrow> string" where
  "bcrypt_key p = take 72 p"

text \<open>
  Modelled from the spec: \<open>bcrypt.hash(s, rounds)\<close> of \<open>bcryptjs\<close>, which is not part
  of server.js, with the fresh salt it draws (section 4.1: a salted one-way hash with a
  tunable cost factor).  The digest is computed from the cost, the salt and the key.  It
  throws when \<open>s\<close> is not a string (\<open>None\<close>: the field is missing from the request).
\<close>

definition bcrypt_hash :: "lib \<Rightarrow> string option \<Rightarrow> nat \<Rightarrow> string \<Rightarrow> js_error + pwhash" where
  "bcrypt_hash l s rounds salt =
     (case s of
        None \<Rightarrow> Inl IllegalArguments
      | Some p \<Rightarrow>
          Inr \<lparr>ph_cost = rounds, ph_salt = salt,
               ph_digest = bcrypt_digest l rounds salt (bcrypt_key p)\<rparr>)"

text \<open>
  Modelled from the spec: \<open>bcrypt.compare(s, hash)\<close> of \<open>bcryptjs\<close>, which is not part
  of server.js (section 4.1: it recomputes and compares).  The digest is recomputed with
  the salt and the cost of the stored hash.  It throws when \<open>s\<close> is not a string.
\<close>

definition bcrypt_compare :: "lib \<Rightarrow> string option \<Rightarrow> pwhash \<Rightarrow> js_error + bool" where
  "bcrypt_compare l s h =
     (case s of
        None \<Rightarrow> Inl IllegalArguments
      | Some p \<Rightarrow>
          Inr (bcrypt_digest l (ph_cost h) (ph_salt h) (bcrypt_key p) = ph_digest h))"

text \<open>\<open>expiresIn: '7d'\<close>, in seconds.\<close>

definition expiresIn_7d :: nat where
  "expiresIn_7d = 7 * 24 * 60 * 60"

text \<open>
  Modelled from the spec: the token that \<open>jwt.sign(payload, secret, {expiresIn})\<close> of
  \<open>jsonwebtoken\<close>, which is not part of server.js, builds at clock \<open>now\<close> (section 4.2:
  the three claims plus an expiry \<open>expiresIn\<close> after issuance, signed).
\<close>

definition jwt_token ::
  "lib \<Rightarrow> int \<Rightarrow> int \<Rightarrow> string option \<Rightarrow> string \<Rightarrow> nat \<Rightarrow> nat \<Rightarrow> jwt" where
  "jwt_token l user_id company_id user_role secret expiresIn now =
     (let p = \<lparr>userId = user_id, companyId = company_id, role = user_role, iat = now,
                exp = now + expiresIn\<rparr>
      in \<lparr>jwt_payload = p, jwt_signature = jwt_hmac l secret p\<rparr>)"

text \<open>
  Modelled from the spec: \<open>jwt.sign\<close> of \<open>jsonwebtoken\<close>, which is not part of
  server.js: the text of that token.
\<close>

definition jwt_sign ::
  "lib \<Rightarrow> int \<Rightarrow> int \<Rightarrow> string option \<Rightarrow> string \<Rightarrow> nat \<Rightarrow> nat \<Rightarrow> string" where
  "jwt_sign l user_id company_id user_role secret expiresIn now =
     jwt_encode l (jwt_token l user_id company_id user_role secret expiresIn now)"

text \<open>
  Modelled from the spec: \<open>jwt.verify(token, secret)\<close> of \<open>jsonwebtoken\<close>, which is not
  part of server.js, at clock \<open>now\<close> (section 4.2: a malformed token, an invalid
  signature and an expired token are rejected; otherwise the payload is returned).
\<close>

definition jwt_verify :: "lib \<Rightarrow> string \<Rightarrow> string \<Rightarrow> nat \<Rightarrow> js_error + jwt_payload" where
  "jwt_verify l token secret now =
     (case jwt_decode l token of
        None \<Rightarrow> Inl JsonWebTokenError
      | Some t \<Rightarrow>
          if jwt_signature t \<noteq> jwt_hmac l secret (jwt_payload t) then Inl JsonWebTokenError
          else if exp (jwt_payload t) \<le> now then Inl TokenExpiredError
          else Inr (jwt_payload t))"

text \<open>
  \<open>process.env\<close>, and line 22:
  \<open>const JWT_SECRET = process.env.JWT_SECRET || 'prime-worktops-secret-key-change-in-production'\<close>.
  An empty string is falsy in JavaScript, so \<open>||\<close> replaces it as it replaces
  \<open>undefined\<close>.
\<close>

type_synonym process_env = "string \<rightharpoonup> string"

definition default_secret :: string where
  "default_secret = ''prime-worktops-secret-key-change-in-production''"

definition JWT_SECRET :: "process_env \<Rightarrow> string" where
  "JWT_SECRET penv =
     (case penv ''JWT_SECRET'' of
        None \<Rightarrow> default_secret
      | Some s \<Rightarrow> if s = [] then default_secret else s)"

text \<open>Line 410: \<open>const PORT = process.env.PORT || 3000\<close>.\<close>

definition PORT :: "process_env \<Rightarrow> string" where
  "PORT penv =
     (case penv ''PORT'' of None \<Rightarrow> ''3000'' | Some s \<Rightarrow> if s = [] then ''3000'' else s)"

text \<open>
  Loading the module (lines 1 to 22 and 409 to 416): the constants are computed,
  \<open>initDB\<close> runs and catches its own errors, and the server listens.  No statement of
  the module exits the process; \<open>Refused\<close> is the outcome the source never produces.
\<close>

record server =
  srv_secret :: string
  srv_port :: string
  srv_ssl :: bool

datatype startup = Listening server | Refused

definition start_server :: "process_env \<Rightarrow> startup" where
  "start_server penv =
     Listening \<lparr>srv_secret = JWT_SECRET penv, srv_port = PORT penv,
                srv_ssl = (penv ''NODE_ENV'' = Some ''production'')\<rparr>"

text \<open>
  What one request takes from outside the program: whether the \<open>k\<close>-th call of
  \<open>pool.query\<close> of the request fails before the store runs the statement (the connection
  is lost), the clock, the year of the clock, \<open>Math.floor(Math.random() * 9000)\<close>, and
  the salt that \<open>bcrypt.hash\<close> draws.
\<close>

record io =
  io_fault :: "nat \<Rightarrow> bool"
  io_now :: nat
  io_year :: nat
  io_random :: nat
  io_salt :: string

definition pool_query :: "io \<Rightarrow> nat \<Rightarrow> 'a stmt \<Rightarrow> 'a stmt" where
  "pool_query i k stmt d = (if io_fault i k then (Inl ConnectionError, d) else stmt d)"

section \<open>Requests and responses\<close>

record user_json =
  uj_firstName :: "string option"
  uj_lastName :: "string option"
  uj_email :: "string option"
  uj_role :: "string option"

type_synonym joined_quote = "quote \<times> string option \<times> string option"

datatype json =
    ErrorJson string
  | SuccessJson
  | RegisteredJson string user_json int "string option"
  | LoggedInJson string user_json int string "string option"
  | MeJson me_row
  | BrandingJson branding_row
  | EmptyJson
  | QuoteJson quote
  | JoinedQuoteJson joined_quote
  | QuotesJson "joined_quote list"
  | HealthJson nat
  | FileJson string

record response =
  res_status :: nat
  res_body :: json

definition json_error :: "nat \<Rightarrow> string \<Rightarrow> response" where
  "json_error code msg = \<lparr>res_status = code, res_body = ErrorJson msg\<rparr>"

definition json_ok :: "json \<Rightarrow> response" where
  "json_ok j = \<lparr>res_status = 200, res_body = j\<rparr>"

record register_body =
  rb_companyName :: "string option"
  rb_email :: "string option"
  rb_password :: "string option"
  rb_firstName :: "string option"
  rb_lastName :: "string option"
  rb_phone :: "string option"
  rb_postcode :: "string option"

record login_body =
  lb_email :: "string option"
  lb_password :: "string option"

record branding_body =
  bb_logoUrl :: "string option"
  bb_primaryColour :: "string option"
  bb_secondaryColour :: "string option"
  bb_quoteHeaderText :: "string option"
  bb_quoteFooterText :: "string option"

record company_body =
  cb_companyName :: "string option"
  cb_phone :: "string option"
  cb_addressLine1 :: "string option"
  cb_addressLine2 :: "string option"
  cb_city :: "string option"
  cb_postcode :: "string option"
  cb_vatNumber :: "string option"


section \<open>The handlers\<close>

text \<open>\<open>generateQuoteRef\<close> (lines 107 to 111): \<open>PW-<year>-<random + 1000>\<close>.\<close>

fun show_nat :: "nat \<Rightarrow> string" where
  "show_nat n =
     (if n < 10 then [''0123456789'' ! n]
      else show_nat (n div 10) @ [''0123456789'' ! (n mod 10)])"

definition generateQuoteRef :: "io \<Rightarrow> string" where
  "generateQuoteRef i = ''PW-'' @ show_nat (io_year i) @ ''-'' @ show_nat (io_random i + 1000)"

text \<open>JavaScript's \<open>s.split(' ')\<close>: the pieces between single spaces, empty ones included.\<close>

fun split_space :: "string \<Rightarrow> string list" where
  "split_space [] = [[]]"
| "split_space (c # cs) =
     (if c = CHR '' '' then [] # split_space cs
      else (case split_space cs of [] \<Rightarrow> [[c]] | w # ws \<Rightarrow> (c # w) # ws))"

text \<open>
  \<open>authHeader && authHeader.split(' ')[1]\<close> (line 116): \<open>None\<close> is \<open>undefined\<close>.  An
  empty header is falsy and is itself the value of \<open>&&\<close>.
\<close>

definition bearer_token :: "string option \<Rightarrow> string option" where
  "bearer_token authHeader =
     (case authHeader of
        None \<Rightarrow> None
      | Some h \<Rightarrow>
          if h = [] then Some []
          else (case split_space h of _ # t # _ \<Rightarrow> Some t | _ \<Rightarrow> None))"

text \<open>
  \<open>authenticateToken\<close> (lines 114 to 125): the response it sends itself, or the payload
  it stores in \<open>req.user\<close> before calling \<open>next()\<close>.
\<close>

definition authenticateToken ::
  "lib \<Rightarrow> process_env \<Rightarrow> io \<Rightarrow> string option \<Rightarrow> response + jwt_payload" where
  "authenticateToken l penv i authHeader =
     (case bearer_token authHeader of
        None \<Rightarrow> Inl (json_error 401 ''Access denied'')
      | Some token \<Rightarrow>
          if token = [] then Inl (json_error 401 ''Access denied'')
          else (case jwt_verify l token (JWT_SECRET penv) (io_now i) of
                  Inl err \<Rightarrow> Inl (json_error 403 ''Invalid token'')
                | Inr user \<Rightarrow> Inr user))"

text \<open>\<open>POST /api/register\<close> (lines 135 to 184).\<close>

definition register :: "lib \<Rightarrow> process_env \<Rightarrow> io \<Rightarrow> register_body \<Rightarrow> db \<Rightarrow> response \<times> db" where
  "register l penv i body d =
     (case pool_query i 0 (select_user_ids_by_email (rb_email body)) d of
        (Inl err, d1) \<Rightarrow> (json_error 500 ''Registration failed'', d1)
      | (Inr existing, d1) \<Rightarrow>
          if length existing > 0 then (json_error 400 ''Email already registered'', d1)
          else
            (case pool_query i 1
                    (insert_company (rb_companyName body) (rb_email body) (rb_phone body)
                       (rb_postcode body) (io_now i)) d1 of
               (Inl err, d2) \<Rightarrow> (json_error 500 ''Registration failed'', d2)
             | (Inr company_id, d2) \<Rightarrow>
                 (case pool_query i 2 (insert_branding company_id (io_now i)) d2 of
                    (Inl err, d3) \<Rightarrow> (json_error 500 ''Registration failed'', d3)
                  | (Inr _, d3) \<Rightarrow>
                      (case bcrypt_hash l (rb_password body) 10 (io_salt i) of
                         Inl err \<Rightarrow> (json_error 500 ''Registration failed'', d3)
                       | Inr passwordHash \<Rightarrow>
                           (case pool_query i 3
                                   (insert_user company_id (rb_email body) passwordHash
                                      (rb_firstName body) (rb_lastName body) (rb_phone body)
                                      (io_now i)) d3 of
                              (Inl err, d4) \<Rightarrow> (json_error 500 ''Registration failed'', d4)
                            | (Inr user_id, d4) \<Rightarrow>
                                (json_ok
                                   (RegisteredJson
                                      (jwt_sign l user_id company_id (Some ''trade_admin'')
                                         (JWT_SECRET penv) expiresIn_7d (io_now i))
                                      \<lparr>uj_firstName = rb_firstName body,
                                        uj_lastName = rb_lastName body,
                                        uj_email = rb_email body,
                                        uj_role = Some ''trade_admin''\<rparr>
                                      company_id (rb_companyName body)),
                                 d4))))))"

text \<open>\<open>POST /api/login\<close> (lines 187 to 235).\<close>

definition login :: "lib \<Rightarrow> process_env \<Rightarrow> io \<Rightarrow> login_body \<Rightarrow> db \<Rightarrow> response \<times> db" where
  "login l penv i body d =
     (case pool_query i 0 (select_login_rows (lb_email body)) d of
        (Inl err, d1) \<Rightarrow> (json_error 500 ''Login failed'', d1)
      | (Inr rows, d1) \<Rightarrow>
          (case rows of
             [] \<Rightarrow> (json_error 400 ''Invalid email or password'', d1)
           | (user, company_id, company_name, account_status) # _ \<Rightarrow>
               (case bcrypt_compare l (lb_password body) (u_password_hash user) of
                  Inl err \<Rightarrow> (json_error 500 ''Login failed'', d1)
                | Inr validPassword \<Rightarrow>
                    if \<not> validPassword
                    then (json_error 400 ''Invalid email or password'', d1)
                    else
                      (json_ok
                         (LoggedInJson
                            (jwt_sign l (u_id user) company_id (u_role user)
                               (JWT_SECRET penv) expiresIn_7d (io_now i))
                            \<lparr>uj_firstName = Some (u_first_name user),
                              uj_lastName = Some (u_last_name user),
                              uj_email = Some (u_email user),
                              uj_role = u_role user\<rparr>
                            company_id company_name account_status),
                       d1))))"

text \<open>\<open>GET /api/me\<close> (lines 238 to 257), after \<open>authenticateToken\<close>.\<close>

definition get_me :: "io \<Rightarrow> jwt_payload \<Rightarrow> db \<Rightarrow> response \<times> db" where
  "get_me i user d =
     (case pool_query i 0 (select_me (userId user)) d of
        (Inl err, d1) \<Rightarrow> (json_error 500 ''Failed to get user'', d1)
      | (Inr rows, d1) \<Rightarrow>
          (case rows of
             [] \<Rightarrow> (json_error 404 ''User not found'', d1)
           | r # _ \<Rightarrow> (json_ok (MeJson r), d1)))"

text \<open>\<open>GET /api/branding\<close> (lines 260 to 274): \<open>res.json(result.rows[0] || {})\<close>.\<close>

definition get_branding :: "io \<Rightarrow> jwt_payload \<Rightarrow> db \<Rightarrow> response \<times> db" where
  "get_branding i user d =
     (case pool_query i 0 (select_branding (companyId user)) d of
        (Inl err, d1) \<Rightarrow> (json_error 500 ''Failed to get branding'', d1)
      | (Inr rows, d1) \<Rightarrow>
          (case rows of
             [] \<Rightarrow> (json_ok EmptyJson, d1)
           | r # _ \<Rightarrow> (json_ok (BrandingJson r), d1)))"

text \<open>\<open>PUT /api/branding\<close> (lines 277 to 295).\<close>

definition put_branding :: "io \<Rightarrow> jwt_payload \<Rightarrow> branding_body \<Rightarrow> db \<Rightarrow> response \<times> db" where
  "put_branding i user body d =
     (case pool_query i 0
             (update_branding (bb_logoUrl body) (bb_primaryColour body)
                (bb_secondaryColour body) (bb_quoteHeaderText body)
                (bb_quoteFooterText body) (companyId user)) d of
        (Inl err, d1) \<Rightarrow> (json_error 500 ''Failed to update branding'', d1)
      | (Inr _, d1) \<Rightarrow> (json_ok SuccessJson, d1))"

text \<open>\<open>PUT /api/company\<close> (lines 298 to 318).\<close>

definition put_company :: "io \<Rightarrow> jwt_payload \<Rightarrow> company_body \<Rightarrow> db \<Rightarrow> response \<times> db" where
  "put_company i user body d =
     (case pool_query i 0
             (update_company (cb_companyName body) (cb_phone body) (cb_addressLine1 body)
                (cb_addressLine2 body) (cb_city body) (cb_postcode body)
                (cb_vatNumber body) (companyId user)) d of
        (Inl err, d1) \<Rightarrow> (json_error 500 ''Failed to update company'', d1)
      | (Inr _, d1) \<Rightarrow> (json_ok SuccessJson, d1))"

text \<open>\<open>POST /api/quotes\<close> (lines 321 to 349).\<close>

definition post_quotes :: "io \<Rightarrow> jwt_payload \<Rightarrow> quote_body \<Rightarrow> db \<Rightarrow> response \<times> db" where
  "post_quotes i user body d =
     (let quoteRef = generateQuoteRef i
      in case pool_query i 0
                (insert_quote (companyId user) (userId user) quoteRef body (io_now i)) d of
           (Inl err, d1) \<Rightarrow> (json_error 500 ''Failed to create quote'', d1)
         | (Inr row, d1) \<Rightarrow> (json_ok (QuoteJson row), d1))"

text \<open>\<open>GET /api/quotes\<close> (lines 352 to 366).\<close>

definition get_quotes :: "io \<Rightarrow> jwt_payload \<Rightarrow> db \<Rightarrow> response \<times> db" where
  "get_quotes i user d =
     (case pool_query i 0 (select_quotes (companyId user)) d of
        (Inl err, d1) \<Rightarrow> (json_error 500 ''Failed to get quotes'', d1)
      | (Inr rows, d1) \<Rightarrow> (json_ok (QuotesJson rows), d1))"

text \<open>\<open>GET /api/quotes/:id\<close> (lines 369 to 387).\<close>

definition get_quote :: "io \<Rightarrow> jwt_payload \<Rightarrow> int \<Rightarrow> db \<Rightarrow> response \<times> db" where
  "get_quote i user quote_id d =
     (case pool_query i 0 (select_quote quote_id (companyId user)) d of
        (Inl err, d1) \<Rightarrow> (json_error 500 ''Failed to get quote'', d1)
      | (Inr rows, d1) \<Rightarrow>
          (case rows of
             [] \<Rightarrow> (json_error 404 ''Quote not found'', d1)
           | r # _ \<Rightarrow> (json_ok (JoinedQuoteJson r), d1)))"

text \<open>\<open>PATCH /api/quotes/:id/status\<close> (lines 390 to 402).\<close>

definition patch_quote_status ::
  "io \<Rightarrow> jwt_payload \<Rightarrow> int \<Rightarrow> string option \<Rightarrow> db \<Rightarrow> response \<times> db" where
  "patch_quote_status i user quote_id status d =
     (case pool_query i 0 (update_quote_status status quote_id (companyId user)) d of
        (Inl err, d1) \<Rightarrow> (json_error 500 ''Failed to update quote'', d1)
      | (Inr _, d1) \<Rightarrow> (json_ok SuccessJson, d1))"

subsection \<open>The routes\<close>

text \<open>
  A request of the interface: its route, the \<open>Authorization\<close> header where the route
  runs \<open>authenticateToken\<close> first, the \<open>:id\<close> parameter, and the body.  The \<open>:id\<close>
  of a route is the integer that its text denotes; a text that denotes none is rejected by
  the store like an integer out of range, and is not a request of this type.
\<close>

datatype request =
    GetHealth
  | PostRegister register_body
  | PostLogin login_body
  | GetMe "string option"
  | GetBranding "string option"
  | PutBranding "string option" branding_body
  | PutCompany "string option" company_body
  | PostQuotes "string option" quote_body
  | GetQuotes "string option"
  | GetQuote "string option" int
  | PatchQuoteStatus "string option" int "string option"
  | GetOther

text \<open>\<open>app.get(path, authenticateToken, handler)\<close>.\<close>

definition authenticated ::
  "lib \<Rightarrow> process_env \<Rightarrow> io \<Rightarrow> string option \<Rightarrow> (jwt_payload \<Rightarrow> db \<Rightarrow> response \<times> db)
     \<Rightarrow> db \<Rightarrow> response \<times> db" where
  "authenticated l penv i authHeader handler d =
     (case authenticateToken l penv i authHeader of
        Inl res \<Rightarrow> (res, d)
      | Inr user \<Rightarrow> handler user d)"

fun handle :: "lib \<Rightarrow> process_env \<Rightarrow> io \<Rightarrow> request \<Rightarrow> db \<Rightarrow> response \<times> db" where
  "handle l penv i GetHealth d = (json_ok (HealthJson (io_now i)), d)"
| "handle l penv i (PostRegister body) d = register l penv i body d"
| "handle l penv i (PostLogin body) d = login l penv i body d"
| "handle l penv i (GetMe h) d = authenticated l penv i h (get_me i) d"
| "handle l penv i (GetBranding h) d = authenticated l penv i h (get_branding i) d"
| "handle l penv i (PutBranding h body) d =
     authenticated l penv i h (\<lambda>user. put_branding i user body) d"
| "handle l penv i (PutCompany h body) d =
     authenticated l penv i h (\<lambda>user. put_company i user body) d"
| "handle l penv i (PostQuotes h body) d =
     authenticated l penv i h (\<lambda>user. post_quotes i user body) d"
| "handle l penv i (GetQuotes h) d = authenticated l penv i h (get_quotes i) d"
| "handle l penv i (GetQuote h quote_id) d =
     authenticated l penv i h (\<lambda>user. get_quote i user quote_id) d"
| "handle l penv i (PatchQuoteStatus h quote_id status) d =
     authenticated l penv i h (\<lambda>user. patch_quote_status i user quote_id status) d"
| "handle l penv i GetOther d = (json_ok (FileJson ''public/index.html''), d)"

text \<open>The store after a sequence of requests, each with what it takes from outside.\<close>

fun run :: "lib \<Rightarrow> process_env \<Rightarrow> (io \<times> request) list \<Rightarrow> db \<Rightarrow> db" where
  "run l penv [] d = d"
| "run l penv ((i, r) # rs) d = run l penv rs (snd (handle l penv i r d))"


section \<open>A concrete server and store\<close>

text \<open>
  Instances on which the theorems below are exercised.  The libraries are replaced by
  small functions: the digest is the salt followed by the key, the signature is the
  key, and two tokens have a text form, \<open>t1\<close> for user 1 of company 1 and \<open>t2\<close> for
  user 2 of company 2, both issued at clock 1000.
\<close>

definition sample_token :: "int \<Rightarrow> jwt" where
  "sample_token n =
     \<lparr>jwt_payload = \<lparr>userId = n, companyId = n, role = Some ''trade_admin'', iat = 1000,
                      exp = 1000 + expiresIn_7d\<rparr>,
      jwt_signature = default_secret\<rparr>"

definition sample_lib :: lib where
  "sample_lib =
     \<lparr>bcrypt_digest = (\<lambda>c s p. s @ p),
      jwt_hmac = (\<lambda>k p. k),
      jwt_encode = (\<lambda>t. if userId (jwt_payload t) = 1 then ''t1'' else ''t2''),
      jwt_decode = (\<lambda>s. if s = ''t1'' then Some (sample_token 1)
                         else if s = ''t2'' then Some (sample_token 2) else None)\<rparr>"

definition sample_io :: io where
  "sample_io = \<lparr>io_fault = (\<lambda>k. False), io_now = 2000, io_year = 2026, io_random = 234,
     io_salt = ''salt''\<rparr>"

definition sample_company :: "int \<Rightarrow> string \<Rightarrow> string \<Rightarrow> company" where
  "sample_company n name email =
     \<lparr>c_id = n, c_company_name = name, c_email = email, c_phone = None,
      c_address_line1 = None, c_address_line2 = None, c_city = Some ''Leeds'',
      c_postcode = None, c_vat_number = None, c_account_status = Some ''trial'',
      c_trial_ends_at = Some 1209700, c_markup_percentage = Some 2000,
      c_created_at = Some 100\<rparr>"

definition sample_account :: "int \<Rightarrow> string \<Rightarrow> string \<Rightarrow> bool \<Rightarrow> user" where
  "sample_account n email password active =
     \<lparr>u_id = n, u_company_id = Some n, u_email = email,
      u_password_hash = \<lparr>ph_cost = 10, ph_salt = ''salt'', ph_digest = ''salt'' @ password\<rparr>,
      u_first_name = ''Jane'', u_last_name = ''Doe'', u_phone = None,
      u_role = Some ''trade_admin'', u_is_active = Some active, u_created_at = Some 100\<rparr>"

definition sample_branding :: "int \<Rightarrow> branding" where
  "sample_branding n =
     \<lparr>b_id = n, b_company_id = Some n, b_logo_url = Some ''/logo.png'',
      b_primary_colour = Some ''#033f2a'', b_secondary_colour = Some ''#f6d466'',
      b_quote_header_text = Some ''Quote'', b_quote_footer_text = None,
      b_created_at = Some 100\<rparr>"

definition sample_quote :: "int \<Rightarrow> int \<Rightarrow> string \<Rightarrow> quote" where
  "sample_quote n owner ref =
     \<lparr>q_id = n, q_company_id = Some owner, q_created_by = Some owner,
      q_quote_reference = ref, q_status = Some ''draft'',
      q_customer_name = Some ''Jane Doe'', q_customer_email = None,
      q_customer_phone = None, q_customer_address = None, q_customer_postcode = None,
      q_material_name = Some ''Quartz'', q_material_brand = None, q_thickness = Some 30,
      q_edge_profile = None, q_slabs_required = None,
      q_trade_price_ex_vat = Some 50000, q_trade_price_inc_vat = None,
      q_customer_price_ex_vat = None, q_customer_price_inc_vat = None,
      q_quote_data = None, q_valid_until = Some 2592000, q_created_at = Some 100\<rparr>"

text \<open>
  Three companies.  Company 1 has lost its branding row and its user is inactive;
  company 3 has no user.  The only quote belongs to company 2.
\<close>

definition sample_db :: db where
  "sample_db =
     \<lparr>companies = [sample_company 1 ''Acme Worktops'' ''a@acme.test'',
                   sample_company 2 ''Stone Ltd'' ''b@stone.test'',
                   sample_company 3 ''Marble Co'' ''c@marble.test''],
      users = [sample_account 1 ''a@acme.test'' ''secret123'' False,
               sample_account 2 ''b@stone.test'' ''granite'' True],
      company_branding = [sample_branding 2, sample_branding 3],
      quotes = [sample_quote 1 2 ''PW-2026-1234''],
      companies_id_seq = 3, users_id_seq = 2, company_branding_id_seq = 3,
      quotes_id_seq = 1\<rparr>"

definition only_primaryColour :: branding_body where
  "only_primaryColour =
     \<lparr>bb_logoUrl = None, bb_primaryColour = Some ''#ff0000'', bb_secondaryColour = None,
      bb_quoteHeaderText = None, bb_quoteFooterText = None\<rparr>"

definition only_city :: company_body where
  "only_city =
     \<lparr>cb_companyName = None, cb_phone = None, cb_addressLine1 = None,
      cb_addressLine2 = None, cb_city = Some ''York'', cb_postcode = None,
      cb_vatNumber = None\<rparr>"

text \<open>A production environment that sets no \<open>JWT_SECRET\<close>.\<close>

definition production_env :: process_env where
  "production_env = [''NODE_ENV'' \<mapsto> ''production'', ''PORT'' \<mapsto> ''8080'']"

definition sample_login :: login_body where
  "sample_login = \<lparr>lb_email = Some ''a@acme.test'', lb_password = Some ''secret123''\<rparr>"

text \<open>A registration, and a quote as \<open>POST /api/quotes\<close> receives it.\<close>

definition new_tenant :: register_body where
  "new_tenant =
     \<lparr>rb_companyName = Some ''Granite Bros'', rb_email = Some ''d@granite.test'',
      rb_password = Some ''hunter2'', rb_firstName = Some ''Sam'',
      rb_lastName = Some ''Stone'', rb_phone = None, rb_postcode = Some ''LS1 4AP''\<rparr>"

definition sample_quote_body :: quote_body where
  "sample_quote_body =
     \<lparr>qb_customerName = Some ''Jane Doe'', qb_customerEmail = None,
      qb_customerPhone = None, qb_customerAddress = None, qb_customerPostcode = None,
      qb_materialName = Some ''Quartz'', qb_materialBrand = None, qb_thickness = None,
      qb_edgeProfile = None, qb_slabsRequired = None, qb_tradePriceExVat = Some 50000,
      qb_tradePriceIncVat = None, qb_customerPriceExVat = None,
      qb_customerPriceIncVat = None, qb_quoteData = None\<rparr>"

section \<open>Properties of the interface, as predicates\<close>

text \<open>
  What a partial update may do to a row of \<open>company_branding\<close>, read before (\<open>b\<close>) and
  after (\<open>b'\<close>) a \<open>PUT /api/branding\<close> of the company \<open>cid\<close>: the row of another
  company is the same row, and a column whose field the body omits has its stored value.
\<close>

definition branding_kept :: "int \<Rightarrow> branding_body \<Rightarrow> branding \<Rightarrow> branding \<Rightarrow> bool" where
  "branding_kept cid body b b' \<longleftrightarrow>
     b_id b' = b_id b \<and> b_company_id b' = b_company_id b
     \<and> b_created_at b' = b_created_at b
     \<and> (b_company_id b \<noteq> Some cid \<longrightarrow> b' = b)
     \<and> (bb_logoUrl body = None \<longrightarrow> b_logo_url b' = b_logo_url b)
     \<and> (bb_primaryColour body = None \<longrightarrow> b_primary_colour b' = b_primary_colour b)
     \<and> (bb_secondaryColour body = None \<longrightarrow> b_secondary_colour b' = b_secondary_colour b)
     \<and> (bb_quoteHeaderText body = None
          \<longrightarrow> b_quote_header_text b' = b_quote_header_text b)
     \<and> (bb_quoteFooterText body = None
          \<longrightarrow> b_quote_footer_text b' = b_quote_footer_text b)"

text \<open>The same for a row of \<open>companies\<close> and \<open>PUT /api/company\<close>.\<close>

definition company_kept :: "int \<Rightarrow> company_body \<Rightarrow> company \<Rightarrow> company \<Rightarrow> bool" where
  "company_kept cid body c c' \<longleftrightarrow>
     c_id c' = c_id c \<and> c_email c' = c_email c
     \<and> c_account_status c' = c_account_status c
     \<and> c_trial_ends_at c' = c_trial_ends_at c
     \<and> c_markup_percentage c' = c_markup_percentage c
     \<and> c_created_at c' = c_created_at c
     \<and> (c_id c \<noteq> cid \<longrightarrow> c' = c)
     \<and> (cb_companyName body = None \<longrightarrow> c_company_name c' = c_company_name c)
     \<and> (cb_phone body = None \<longrightarrow> c_phone c' = c_phone c)
     \<and> (cb_addressLine1 body = None \<longrightarrow> c_address_line1 c' = c_address_line1 c)
     \<and> (cb_addressLine2 body = None \<longrightarrow> c_address_line2 c' = c_address_line2 c)
     \<and> (cb_city body = None \<longrightarrow> c_city c' = c_city c)
     \<and> (cb_postcode body = None \<longrightarrow> c_postcode c' = c_postcode c)
     \<and> (cb_vatNumber body = None \<longrightarrow> c_vat_number c' = c_vat_number c)"

text \<open>
  What \<open>POST /api/register\<close> can have done to the store \<open>d\<close> when it returns with the
  store \<open>d'\<close>: nothing; or a company \<open>c\<close> with a new id and a new email was appended,
  possibly followed by its branding row \<open>b\<close>, possibly followed by its user \<open>u\<close>, who
  has the company's email.  \<open>quotes\<close> is never touched.
\<close>

definition register_outcome :: "db \<Rightarrow> db \<Rightarrow> bool" where
  "register_outcome d d' \<longleftrightarrow>
     quotes d' = quotes d
     \<and> ((companies d' = companies d \<and> company_branding d' = company_branding d
          \<and> users d' = users d)
        \<or> (\<exists>c. c_id c \<notin> set (map c_id (companies d))
              \<and> c_email c \<notin> set (map c_email (companies d))
              \<and> companies d' = companies d @ [c]
              \<and> ((company_branding d' = company_branding d \<and> users d' = users d)
                 \<or> (\<exists>b. b_company_id b = Some (c_id c)
                       \<and> Some (c_id c) \<notin> set (map b_company_id (company_branding d))
                       \<and> company_branding d' = company_branding d @ [b]
                       \<and> (users d' = users d
                          \<or> (\<exists>u. u_company_id u = Some (c_id c) \<and> u_email u = c_email c
                                \<and> u_email u \<notin> set (map u_email (users d))
                                \<and> users d' = users d @ [u]))))))"

text \<open>
  The columns that tie a tenant together: of each company its id and email, of each
  branding row its company, of each user its company and email.
\<close>

definition company_keys :: "db \<Rightarrow> (int \<times> string) list" where
  "company_keys d = map (\<lambda>c. (c_id c, c_email c)) (companies d)"

definition branding_keys :: "db \<Rightarrow> int option list" where
  "branding_keys d = map b_company_id (company_branding d)"

definition user_keys :: "db \<Rightarrow> (int option \<times> string) list" where
  "user_keys d = map (\<lambda>u. (u_company_id u, u_email u)) (users d)"

text \<open>
  The invariant of the store under the interface: emails of users and of companies are
  unique, so are the ids of companies and the companies of branding rows, and every user
  belongs to a company that has the user's email and a branding row.
\<close>

definition keys_inv ::
  "(int option \<times> string) list \<Rightarrow> (int \<times> string) list \<Rightarrow> int option list \<Rightarrow> bool" where
  "keys_inv uk ck bk \<longleftrightarrow>
     distinct (map snd uk) \<and> distinct (map snd ck) \<and> distinct (map fst ck) \<and> distinct bk
     \<and> list_all (\<lambda>(ucid, e). case ucid of None \<Rightarrow> False
                    | Some cid \<Rightarrow> (cid, e) \<in> set ck \<and> Some cid \<in> set bk) uk"

definition tenant_inv :: "db \<Rightarrow> bool" where
  "tenant_inv d \<longleftrightarrow> keys_inv (user_keys d) (company_keys d) (branding_keys d)"

text \<open>
  The company, user and branding triples of an email: a company with that email, a user
  of that company with that email, and a branding row of that company.
\<close>

definition tenant_triples :: "string \<Rightarrow> db \<Rightarrow> (company \<times> user \<times> branding) list" where
  "tenant_triples e d =
     [(c, u, b).
        c \<leftarrow> companies d, c_email c = e,
        u \<leftarrow> users d, u_email u = e \<and> u_company_id u = Some (c_id c),
        b \<leftarrow> company_branding d, b_company_id b = Some (c_id c)]"

text \<open>Two quote rows that agree on every column but \<open>status\<close>.\<close>

definition same_but_status :: "quote \<Rightarrow> quote \<Rightarrow> bool" where
  "same_but_status q q' \<longleftrightarrow> q'\<lparr>q_status := None\<rparr> = q\<lparr>q_status := None\<rparr>"

text \<open>
  What one request \<open>r\<close> may do to a quote row, read before (\<open>q\<close>) and after (\<open>q'\<close>):
  nothing, unless \<open>r\<close> is a \<open>PATCH /api/quotes/:id/status\<close> whose token verifies, whose
  \<open>:id\<close> is the row's id and whose company is the row's company; then the row may differ
  in \<open>status\<close> only.
\<close>

definition quote_kept :: "lib \<Rightarrow> process_env \<Rightarrow> io \<Rightarrow> request \<Rightarrow> quote \<Rightarrow> quote \<Rightarrow> bool" where
  "quote_kept l penv i r q q' \<longleftrightarrow>
     q' = q
     \<or> (case r of
          PatchQuoteStatus h quote_id status \<Rightarrow>
            (case authenticateToken l penv i h of
               Inl res \<Rightarrow> False
             | Inr user \<Rightarrow>
                 q_id q = quote_id \<and> q_company_id q = Some (companyId user)
                 \<and> same_but_status q q')
        | _ \<Rightarrow> False)"

section \<open>Tenant isolation of the quote routes\<close>

lemma integers_Cons: "integers (p # ps) \<longleftrightarrow> int4 p \<noteq> None \<and> integers ps"
  by (simp add: integers_def)

lemma select_quote_foreign:
  assumes "\<forall>q \<in> set (quotes d). q_id q = quote_id \<longrightarrow> q_company_id q \<noteq> Some cid"
  shows "select_quote quote_id cid d
           = (if integers [quote_id, cid] then Inr [] else Inl DataException, d)"
proof -
  have "filter (\<lambda>q. q_id q = quote_id \<and> q_company_id q = Some cid) (quotes d) = []"
    using assms by (auto simp: filter_empty_conv)
  then show ?thesis by (simp add: select_quote_def)
qed

lemma get_quote_no_row:
  assumes "\<forall>q \<in> set (quotes d). q_id q = quote_id \<longrightarrow> q_company_id q \<noteq> Some (companyId user)"
  shows "get_quote i user quote_id d =
           (if io_fault i 0 \<or> \<not> integers [quote_id, companyId user]
            then json_error 500 ''Failed to get quote''
            else json_error 404 ''Quote not found'', d)"
  using select_quote_foreign [OF assms]
  by (simp add: get_quote_def pool_query_def)

lemma sample_auth:
  "authenticateToken sample_lib Map.empty sample_io (Some ''Bearer t1'')
     = Inr (jwt_payload (sample_token 1))"
  "authenticateToken sample_lib Map.empty sample_io (Some ''Bearer t2'')
     = Inr (jwt_payload (sample_token 2))"
  by (simp_all add: authenticateToken_def bearer_token_def sample_lib_def sample_io_def
      jwt_verify_def JWT_SECRET_def sample_token_def expiresIn_7d_def)

text \<open>
  C1.  A caller authenticated for one company asks \<open>GET /api/quotes/:id\<close> for a quote
  that exists and belongs to another company (or to none).  The response is the one for
  an id that no quote has, whatever the connection does; when the query reaches the store
  it is 404 \<open>Quote not found\<close>, neither the row nor a 403, and the store is unchanged.
  \<open>id\<close> is the primary key of \<open>quotes\<close>; the two ids and the company id of the token
  are 32-bit integers, as the values of the \<open>INTEGER\<close> columns are.
\<close>

theorem get_quote_foreign_is_not_found:
  assumes auth: "authenticateToken l penv i h = Inr user"
      and pk: "distinct (map q_id (quotes d))"
      and q: "q \<in> set (quotes d)" "q_id q = quote_id"
      and foreign: "q_company_id q \<noteq> Some (companyId user)"
      and absent: "other_id \<notin> set (map q_id (quotes d))"
      and range: "integers [quote_id, other_id, companyId user]"
  shows "(\<not> io_fault i 0 \<longrightarrow>
            handle l penv i (GetQuote h quote_id) d = (json_error 404 ''Quote not found'', d))
         \<and> handle l penv i (GetQuote h quote_id) d = handle l penv i (GetQuote h other_id) d"
proof -
  have one: "\<forall>q' \<in> set (quotes d). q_id q' = quote_id
               \<longrightarrow> q_company_id q' \<noteq> Some (companyId user)"
  proof (intro ballI impI)
    fix q' assume "q' \<in> set (quotes d)" "q_id q' = quote_id"
    with pk q have "q' = q"
      by (auto simp: distinct_map dest: inj_onD)
    with foreign show "q_company_id q' \<noteq> Some (companyId user)" by simp
  qed
  have none: "\<forall>q' \<in> set (quotes d). q_id q' = other_id
               \<longrightarrow> q_company_id q' \<noteq> Some (companyId user)"
    using absent by auto
  show ?thesis
    using auth range get_quote_no_row [OF one, of i] get_quote_no_row [OF none, of i]
    by (simp add: authenticated_def integers_Cons)
qed

theorem get_quote_foreign_is_not_found_witness:
  "authenticateToken sample_lib Map.empty sample_io (Some ''Bearer t1'')
     = Inr (jwt_payload (sample_token 1))
   \<and> distinct (map q_id (quotes sample_db))
   \<and> sample_quote 1 2 ''PW-2026-1234'' \<in> set (quotes sample_db)
   \<and> q_id (sample_quote 1 2 ''PW-2026-1234'') = 1
   \<and> q_company_id (sample_quote 1 2 ''PW-2026-1234'')
        \<noteq> Some (companyId (jwt_payload (sample_token 1)))
   \<and> 7 \<notin> set (map q_id (quotes sample_db))
   \<and> integers [1, 7, companyId (jwt_payload (sample_token 1))]
   \<and> \<not> io_fault sample_io 0
   \<and> handle sample_lib Map.empty sample_io (GetQuote (Some ''Bearer t1'') 1) sample_db
        = (json_error 404 ''Quote not found'', sample_db)
   \<and> handle sample_lib Map.empty sample_io (GetQuote (Some ''Bearer t1'') 1) sample_db
        = handle sample_lib Map.empty sample_io (GetQuote (Some ''Bearer t1'') 7) sample_db"
proof -
  have pk: "distinct (map q_id (quotes sample_db))"
    by (simp add: sample_db_def)
  have q: "sample_quote 1 2 ''PW-2026-1234'' \<in> set (quotes sample_db)"
    by (simp add: sample_db_def)
  have qid: "q_id (sample_quote 1 2 ''PW-2026-1234'') = 1"
    by (simp add: sample_quote_def)
  have foreign: "q_company_id (sample_quote 1 2 ''PW-2026-1234'')
                   \<noteq> Some (companyId (jwt_payload (sample_token 1)))"
    by (simp add: sample_quote_def sample_token_def)
  have absent: "7 \<notin> set (map q_id (quotes sample_db))"
    by (simp add: sample_db_def sample_quote_def)
  have range: "integers [1, 7, companyId (jwt_payload (sample_token 1))]"
    by (simp add: integers_def int4_def sample_token_def)
  have up: "\<not> io_fault sample_io 0"
    by (simp add: sample_io_def)
  show ?thesis
    using get_quote_foreign_is_not_found [OF sample_auth(1) pk q qid foreign absent range]
      sample_auth(1) pk q qid foreign absent range up
    by blast
qed

section \<open>Branding\<close>

text \<open>
  C10.  When no row of \<open>company_branding\<close> belongs to the caller's company and the query
  reaches the store, \<open>GET /api/branding\<close> answers 200 with the empty object.  The
  company id of the token is a 32-bit integer, as the values of \<open>companies.id\<close> are.
\<close>

theorem get_branding_without_row:
  assumes "authenticateToken l penv i h = Inr user"
      and "\<not> io_fault i 0"
      and "integers [companyId user]"
      and "\<forall>b \<in> set (company_branding d). b_company_id b \<noteq> Some (companyId user)"
  shows "handle l penv i (GetBranding h) d = (\<lparr>res_status = 200, res_body = EmptyJson\<rparr>, d)"
proof -
  have "select_branding (companyId user) d = (Inr [], d)"
    using assms(3,4) by (auto simp: select_branding_def)
  then show ?thesis
    using assms(1,2)
    by (simp add: authenticated_def get_branding_def pool_query_def json_ok_def)
qed

theorem get_branding_without_row_witness:
  "authenticateToken sample_lib Map.empty sample_io (Some ''Bearer t1'')
     = Inr (jwt_payload (sample_token 1))
   \<and> \<not> io_fault sample_io 0
   \<and> integers [companyId (jwt_payload (sample_token 1))]
   \<and> list_all (\<lambda>b. b_company_id b \<noteq> Some (companyId (jwt_payload (sample_token 1))))
         (company_branding sample_db)
   \<and> handle sample_lib Map.empty sample_io (GetBranding (Some ''Bearer t1'')) sample_db
        = (\<lparr>res_status = 200, res_body = EmptyJson\<rparr>, sample_db)"
proof -
  have up: "\<not> io_fault sample_io 0"
    by (simp add: sample_io_def)
  have range: "integers [companyId (jwt_payload (sample_token 1))]"
    by (simp add: integers_def int4_def sample_token_def)
  have none: "\<forall>b \<in> set (company_branding sample_db).
                b_company_id b \<noteq> Some (companyId (jwt_payload (sample_token 1)))"
    by (simp add: sample_db_def sample_branding_def sample_token_def)
  show ?thesis
    using get_branding_without_row [OF sample_auth(1) up range none] sample_auth(1) up
      range none
    by (simp add: list_all_iff)
qed


section \<open>Partial updates\<close>

lemma nullable_None [simp]: "nullable col None = Some None"
  by (simp add: nullable_def)

lemma coalesce_None [simp]: "coalesce None old = old"
  by (simp add: coalesce_def)

lemma update_branding_frame:
  assumes "update_branding (bb_logoUrl body) (bb_primaryColour body)
             (bb_secondaryColour body) (bb_quoteHeaderText body) (bb_quoteFooterText body)
             cid d = (r, d')"
  shows "companies d' = companies d \<and> users d' = users d \<and> quotes d' = quotes d
    \<and> list_all2 (branding_kept cid body) (company_branding d) (company_branding d')"
  using assms
  by (auto simp: update_branding_def branding_kept_def list_all2_map2 list_all2_same
      split: if_splits option.splits)

lemma update_company_frame:
  assumes "update_company (cb_companyName body) (cb_phone body) (cb_addressLine1 body)
             (cb_addressLine2 body) (cb_city body) (cb_postcode body) (cb_vatNumber body)
             cid d = (r, d')"
  shows "company_branding d' = company_branding d \<and> users d' = users d
    \<and> quotes d' = quotes d
    \<and> list_all2 (company_kept cid body) (companies d) (companies d')"
  using assms
  by (auto simp: update_company_def company_kept_def list_all2_map2 list_all2_same
      split: if_splits option.splits)

lemma put_branding_store:
  "(\<exists>r. update_branding (bb_logoUrl body) (bb_primaryColour body) (bb_secondaryColour body)
          (bb_quoteHeaderText body) (bb_quoteFooterText body) (companyId user) d
        = (r, snd (put_branding i user body d)))
   \<or> snd (put_branding i user body d) = d"
  by (cases "update_branding (bb_logoUrl body) (bb_primaryColour body)
        (bb_secondaryColour body) (bb_quoteHeaderText body) (bb_quoteFooterText body)
        (companyId user) d")
     (auto simp: put_branding_def pool_query_def split: sum.splits)

lemma put_company_store:
  "(\<exists>r. update_company (cb_companyName body) (cb_phone body) (cb_addressLine1 body)
          (cb_addressLine2 body) (cb_city body) (cb_postcode body) (cb_vatNumber body)
          (companyId user) d
        = (r, snd (put_company i user body d)))
   \<or> snd (put_company i user body d) = d"
  by (cases "update_company (cb_companyName body) (cb_phone body) (cb_addressLine1 body)
        (cb_addressLine2 body) (cb_city body) (cb_postcode body) (cb_vatNumber body)
        (companyId user) d")
     (auto simp: put_company_def pool_query_def split: sum.splits)

lemma put_branding_frame:
  "companies (snd (put_branding i user body d)) = companies d
   \<and> users (snd (put_branding i user body d)) = users d
   \<and> quotes (snd (put_branding i user body d)) = quotes d
   \<and> list_all2 (branding_kept (companyId user) body) (company_branding d)
        (company_branding (snd (put_branding i user body d)))"
  using put_branding_store [of body user d i]
proof (elim exE disjE)
  fix r
  assume "update_branding (bb_logoUrl body) (bb_primaryColour body)
      (bb_secondaryColour body) (bb_quoteHeaderText body) (bb_quoteFooterText body)
      (companyId user) d = (r, snd (put_branding i user body d))"
  from update_branding_frame [OF this] show ?thesis .
next
  assume "snd (put_branding i user body d) = d"
  then show ?thesis
    by (simp add: list_all2_same branding_kept_def)
qed

lemma put_company_frame:
  "company_branding (snd (put_company i user body d)) = company_branding d
   \<and> users (snd (put_company i user body d)) = users d
   \<and> quotes (snd (put_company i user body d)) = quotes d
   \<and> list_all2 (company_kept (companyId user) body) (companies d)
        (companies (snd (put_company i user body d)))"
  using put_company_store [of body user d i]
proof (elim exE disjE)
  fix r
  assume "update_company (cb_companyName body) (cb_phone body) (cb_addressLine1 body)
        (cb_addressLine2 body) (cb_city body) (cb_postcode body) (cb_vatNumber body)
        (companyId user) d = (r, snd (put_company i user body d))"
  from update_company_frame [OF this] show ?thesis .
next
  assume "snd (put_company i user body d) = d"
  then show ?thesis
    by (simp add: list_all2_same company_kept_def)
qed

text \<open>
  C5.  An authenticated \<open>PUT /api/branding\<close> leaves the other three tables as they are,
  and each row of \<open>company_branding\<close> is related to its former self by
  \<open>branding_kept\<close>: a row of another company is untouched, and a column whose field the
  body omits keeps its stored value, so only provided fields overwrite.  The same holds
  for \<open>PUT /api/company\<close> and the table \<open>companies\<close>.  The response may be 200 or 500.
\<close>

theorem partial_update_keeps_omitted_fields:
  assumes auth: "authenticateToken l penv i h = Inr user"
  shows "(case handle l penv i (PutBranding h body) d of
            (res, d') \<Rightarrow>
              companies d' = companies d \<and> users d' = users d \<and> quotes d' = quotes d
              \<and> list_all2 (branding_kept (companyId user) body)
                   (company_branding d) (company_branding d'))
       \<and> (case handle l penv i (PutCompany h cbody) d of
            (res, d') \<Rightarrow>
              company_branding d' = company_branding d \<and> users d' = users d
              \<and> quotes d' = quotes d
              \<and> list_all2 (company_kept (companyId user) cbody)
                   (companies d) (companies d'))"
  using auth put_branding_frame [of i user body d] put_company_frame [of i user cbody d]
  by (simp add: authenticated_def case_prod_beta)

theorem partial_update_keeps_omitted_fields_witness:
  "authenticateToken sample_lib Map.empty sample_io (Some ''Bearer t2'')
     = Inr (jwt_payload (sample_token 2))
   \<and> handle sample_lib Map.empty sample_io
        (PutBranding (Some ''Bearer t2'') only_primaryColour) sample_db
      = (json_ok SuccessJson,
         sample_db\<lparr>company_branding :=
           [(sample_branding 2)\<lparr>b_primary_colour := Some ''#ff0000''\<rparr>,
            sample_branding 3]\<rparr>)
   \<and> (case handle sample_lib Map.empty sample_io
              (PutBranding (Some ''Bearer t2'') only_primaryColour) sample_db of
         (res, d') \<Rightarrow>
           companies d' = companies sample_db \<and> users d' = users sample_db
           \<and> quotes d' = quotes sample_db
           \<and> list_all2 (branding_kept (companyId (jwt_payload (sample_token 2)))
                  only_primaryColour)
                (company_branding sample_db) (company_branding d'))
   \<and> (case handle sample_lib Map.empty sample_io
              (PutCompany (Some ''Bearer t2'') only_city) sample_db of
         (res, d') \<Rightarrow>
           company_branding d' = company_branding sample_db \<and> users d' = users sample_db
           \<and> quotes d' = quotes sample_db
           \<and> list_all2 (company_kept (companyId (jwt_payload (sample_token 2))) only_city)
                (companies sample_db) (companies d'))"
proof -
  have run: "handle sample_lib Map.empty sample_io
        (PutBranding (Some ''Bearer t2'') only_primaryColour) sample_db
      = (json_ok SuccessJson,
         sample_db\<lparr>company_branding :=
           [(sample_branding 2)\<lparr>b_primary_colour := Some ''#ff0000''\<rparr>,
            sample_branding 3]\<rparr>)"
  proof -
    have "put_branding sample_io (jwt_payload (sample_token 2)) only_primaryColour sample_db
      = (json_ok SuccessJson,
         sample_db\<lparr>company_branding :=
           [(sample_branding 2)\<lparr>b_primary_colour := Some ''#ff0000''\<rparr>,
            sample_branding 3]\<rparr>)"
      by (simp add: put_branding_def pool_query_def update_branding_def
          only_primaryColour_def sample_db_def sample_io_def sample_token_def
          sample_branding_def varchar_def nullable_def coalesce_def integers_def int4_def)
    then show ?thesis
      by (simp add: authenticated_def sample_auth)
  qed
  show ?thesis
    using partial_update_keeps_omitted_fields
            [OF sample_auth(2), where body = only_primaryColour and d = sample_db
               and cbody = only_city]
          sample_auth(2) run
    by blast
qed


section \<open>Start-up and the signing key\<close>

text \<open>
  C2, as the specification states it, fails: in a production environment without
  \<open>JWT_SECRET\<close> the server does not refuse to start.  It listens, and its signing key is
  the constant of line 22.
\<close>

theorem start_without_secret_counterexample:
  "start_server production_env
     = Listening \<lparr>srv_secret = ''prime-worktops-secret-key-change-in-production'',
                  srv_port = ''8080'', srv_ssl = True\<rparr>
   \<and> start_server production_env \<noteq> Refused"
  by (simp add: start_server_def production_env_def JWT_SECRET_def PORT_def default_secret_def)

text \<open>
  C2, amended.  Whenever \<open>JWT_SECRET\<close> is unset or empty the server starts, in every
  environment, and signs and verifies with the default key.
\<close>

theorem start_without_secret:
  assumes "penv ''JWT_SECRET'' = None \<or> penv ''JWT_SECRET'' = Some []"
  shows "start_server penv
           = Listening \<lparr>srv_secret = default_secret, srv_port = PORT penv,
                        srv_ssl = (penv ''NODE_ENV'' = Some ''production'')\<rparr>
         \<and> JWT_SECRET penv = ''prime-worktops-secret-key-change-in-production''"
  using assms
  by (auto simp: start_server_def JWT_SECRET_def default_secret_def)

theorem start_without_secret_witness:
  "(production_env(''JWT_SECRET'' \<mapsto> [])) ''JWT_SECRET'' = Some []
   \<and> start_server (production_env(''JWT_SECRET'' \<mapsto> []))
        = Listening \<lparr>srv_secret = default_secret, srv_port = ''8080'', srv_ssl = True\<rparr>
   \<and> JWT_SECRET (production_env(''JWT_SECRET'' \<mapsto> []))
        = ''prime-worktops-secret-key-change-in-production''"
proof -
  have e: "(production_env(''JWT_SECRET'' \<mapsto> [])) ''JWT_SECRET'' = None
           \<or> (production_env(''JWT_SECRET'' \<mapsto> [])) ''JWT_SECRET'' = Some []"
    by simp
  have p: "PORT (production_env(''JWT_SECRET'' \<mapsto> [])) = ''8080''"
    by (simp add: PORT_def production_env_def)
  have n: "(production_env(''JWT_SECRET'' \<mapsto> [])) ''NODE_ENV'' = Some ''production''"
    by (simp add: production_env_def)
  show ?thesis
    using start_without_secret [where penv = "production_env(''JWT_SECRET'' \<mapsto> [])", OF e]
      p n by simp
qed

section \<open>Session tokens\<close>

lemma split_space_no_space:
  "CHR '' '' \<notin> set s \<Longrightarrow> split_space s = [s]"
  by (induction s) auto

lemma split_space_append:
  "CHR '' '' \<notin> set a \<Longrightarrow> split_space (a @ CHR '' '' # s) = a # split_space s"
  by (induction a) auto

lemma bearer_token_Bearer:
  assumes "CHR '' '' \<notin> set token"
  shows "bearer_token (Some (''Bearer '' @ token)) = Some token"
proof -
  have "split_space (''Bearer'' @ CHR '' '' # token) = ''Bearer'' # split_space token"
    by (rule split_space_append) simp
  then show ?thesis
    using assms by (simp add: bearer_token_def split_space_no_space)
qed

text \<open>
  C3.  The token that \<open>register\<close> and \<open>login\<close> issue at clock \<open>t0\<close> for a user, a
  company and a role, sent back as \<open>Authorization: Bearer <token>\<close>: \<open>authenticateToken\<close>
  yields exactly the three claims (with the issue and expiry times the library adds)
  while the clock is less than seven days after \<open>t0\<close>, and the 403 response from then on.
  The text form of the token is a parameter: the library's parser is assumed to read the
  issued token back, and the text to be non-empty and free of spaces.
\<close>

theorem token_valid_for_7_days:
  assumes dec: "jwt_decode l (jwt_sign l uid cid r (JWT_SECRET penv) expiresIn_7d t0)
                 = Some (jwt_token l uid cid r (JWT_SECRET penv) expiresIn_7d t0)"
      and shape: "jwt_sign l uid cid r (JWT_SECRET penv) expiresIn_7d t0 \<noteq> []"
                "CHR '' '' \<notin> set (jwt_sign l uid cid r (JWT_SECRET penv) expiresIn_7d t0)"
  shows "authenticateToken l penv i
           (Some (''Bearer '' @ jwt_sign l uid cid r (JWT_SECRET penv) expiresIn_7d t0))
         = (if io_now i < t0 + 7 * 24 * 60 * 60
            then Inr \<lparr>userId = uid, companyId = cid, role = r, iat = t0,
                      exp = t0 + 7 * 24 * 60 * 60\<rparr>
            else Inl (json_error 403 ''Invalid token''))"
proof -
  have "bearer_token (Some (''Bearer '' @ jwt_sign l uid cid r (JWT_SECRET penv) expiresIn_7d t0))
          = Some (jwt_sign l uid cid r (JWT_SECRET penv) expiresIn_7d t0)"
    using shape(2) by (rule bearer_token_Bearer)
  then show ?thesis
    using dec shape(1)
    by (simp add: authenticateToken_def jwt_verify_def jwt_token_def expiresIn_7d_def Let_def)
qed

theorem token_valid_for_7_days_witness:
  "jwt_decode sample_lib
      (jwt_sign sample_lib 1 1 (Some ''trade_admin'') (JWT_SECRET Map.empty) expiresIn_7d 1000)
     = Some (jwt_token sample_lib 1 1 (Some ''trade_admin'') (JWT_SECRET Map.empty)
               expiresIn_7d 1000)
   \<and> jwt_sign sample_lib 1 1 (Some ''trade_admin'') (JWT_SECRET Map.empty) expiresIn_7d 1000
       = ''t1''
   \<and> authenticateToken sample_lib Map.empty (sample_io\<lparr>io_now := 1000 + 604799\<rparr>)
        (Some ''Bearer t1'')
       = Inr \<lparr>userId = 1, companyId = 1, role = Some ''trade_admin'', iat = 1000,
              exp = 605800\<rparr>
   \<and> authenticateToken sample_lib Map.empty (sample_io\<lparr>io_now := 1000 + 604800\<rparr>)
        (Some ''Bearer t1'')
       = Inl (json_error 403 ''Invalid token'')"
proof -
  have tok: "jwt_sign sample_lib 1 1 (Some ''trade_admin'') (JWT_SECRET Map.empty)
               expiresIn_7d 1000 = ''t1''"
    by (simp add: jwt_sign_def jwt_token_def sample_lib_def)
  have dec: "jwt_decode sample_lib
      (jwt_sign sample_lib 1 1 (Some ''trade_admin'') (JWT_SECRET Map.empty) expiresIn_7d 1000)
     = Some (jwt_token sample_lib 1 1 (Some ''trade_admin'') (JWT_SECRET Map.empty)
               expiresIn_7d 1000)"
    unfolding tok
    by (simp add: jwt_token_def sample_lib_def sample_token_def JWT_SECRET_def)
  have ne: "jwt_sign sample_lib 1 1 (Some ''trade_admin'') (JWT_SECRET Map.empty)
               expiresIn_7d 1000 \<noteq> []"
    unfolding tok by simp
  have sp: "CHR '' '' \<notin> set (jwt_sign sample_lib 1 1 (Some ''trade_admin'')
               (JWT_SECRET Map.empty) expiresIn_7d 1000)"
    unfolding tok by simp
  show ?thesis
    using token_valid_for_7_days [OF dec ne sp, of "sample_io\<lparr>io_now := 1000 + 604799\<rparr>"]
          token_valid_for_7_days [OF dec ne sp, of "sample_io\<lparr>io_now := 1000 + 604800\<rparr>"]
          dec tok
    by simp
qed

section \<open>Login\<close>

lemma filter_unique_key:
  assumes "distinct (map f xs)" and "x \<in> set xs"
  shows "filter (\<lambda>y. f y = f x) xs = [x]"
  using assms
proof (induction xs)
  case Nil
  then show ?case by simp
next
  case (Cons a xs)
  show ?case
  proof (cases "a = x")
    case True
    with Cons.prems have "\<forall>y \<in> set xs. f y \<noteq> f x"
      by (auto simp: image_iff)
    then have "filter (\<lambda>y. f y = f x) xs = []"
      by (simp add: filter_empty_conv)
    with True show ?thesis by simp
  next
    case False
    with Cons.prems have "x \<in> set xs" "f a \<noteq> f x" "distinct (map f xs)"
      by (auto simp: image_iff)
    with Cons.IH show ?thesis by simp
  qed
qed

lemma concat_map_if:
  "concat (map (\<lambda>x. if P x then g x else []) xs) = concat (map g (filter P xs))"
  by (induction xs) auto

lemma select_login_rows_unique:
  assumes uniq: "distinct (map u_email (users d))"
      and pk: "distinct (map c_id (companies d))"
      and u: "u \<in> set (users d)" and c: "c \<in> set (companies d)"
      and fk: "u_company_id u = Some (c_id c)"
  shows "select_login_rows (Some (u_email u)) d
           = (Inr [(u, c_id c, c_company_name c, c_account_status c)], d)"
proof -
  have us: "filter (\<lambda>y. u_email y = u_email u) (users d) = [u]"
    using uniq u by (rule filter_unique_key)
  have cs: "filter (\<lambda>y. c_id y = c_id c) (companies d) = [c]"
    using pk c by (rule filter_unique_key)
  have cs': "filter (\<lambda>y. u_company_id u = Some (c_id y)) (companies d) = [c]"
    using cs fk by (simp add: eq_commute [of "c_id c"])
  show ?thesis
    unfolding select_login_rows_def
    by (simp add: concat_map_if us cs' del: concat_eq_Nil_conv)
qed


lemma login_rows_is_active:
  "[(u, c_id c, c_company_name c, c_account_status c).
      u \<leftarrow> map (\<lambda>u. u\<lparr>u_is_active := active u\<rparr>) us, u_email u = e,
      c \<leftarrow> cs, u_company_id u = Some (c_id c)]
   = map (apfst (\<lambda>u. u\<lparr>u_is_active := active u\<rparr>))
       [(u, c_id c, c_company_name c, c_account_status c).
          u \<leftarrow> us, u_email u = e, c \<leftarrow> cs, u_company_id u = Some (c_id c)]"
proof (induction us)
  case Nil
  then show ?case by simp
next
  case (Cons u us)
  have "[(u\<lparr>u_is_active := active u\<rparr>, c_id c, c_company_name c, c_account_status c).
           c \<leftarrow> cs, u_company_id u = Some (c_id c)]
        = map (apfst (\<lambda>u. u\<lparr>u_is_active := active u\<rparr>))
            [(u, c_id c, c_company_name c, c_account_status c).
               c \<leftarrow> cs, u_company_id u = Some (c_id c)]"
    by (induction cs) auto
  with Cons show ?case by simp
qed

lemma login_response_is_active:
  "fst (login l penv i body (d\<lparr>users := map (\<lambda>u. u\<lparr>u_is_active := active u\<rparr>) (users d)\<rparr>))
     = fst (login l penv i body d)"
proof (cases "lb_email body")
  case None
  then show ?thesis
    by (simp add: login_def pool_query_def select_login_rows_def)
next
  case (Some e)
  let ?rows = "[(u, c_id c, c_company_name c, c_account_status c).
          u \<leftarrow> users d, u_email u = e, c \<leftarrow> companies d, u_company_id u = Some (c_id c)]"
  have new: "select_login_rows (Some e)
               (d\<lparr>users := map (\<lambda>u. u\<lparr>u_is_active := active u\<rparr>) (users d)\<rparr>)
      = (Inr (map (apfst (\<lambda>u. u\<lparr>u_is_active := active u\<rparr>)) ?rows),
         d\<lparr>users := map (\<lambda>u. u\<lparr>u_is_active := active u\<rparr>) (users d)\<rparr>)"
    using login_rows_is_active [where active = active and us = "users d" and e = e
            and cs = "companies d"]
    by (simp add: select_login_rows_def cong: if_cong)
  have old: "select_login_rows (Some e) d = (Inr ?rows, d)"
    by (simp add: select_login_rows_def)
  show ?thesis
  proof (cases ?rows)
    case Nil
    with new old Some show ?thesis
      by (simp add: login_def pool_query_def)
  next
    case (Cons row rest)
    obtain u cid cn st where row: "row = (u, cid, cn, st)"
      by (cases row) auto
    with Cons new old Some show ?thesis
      by (simp add: login_def pool_query_def split: sum.splits)
  qed
qed

text \<open>
  C9.  \<open>POST /api/login\<close> never reads \<open>is_active\<close>.  In a store where \<open>users.email\<close>
  is unique and \<open>companies.id\<close> is the primary key, for every user row that belongs to
  a company: when the body carries the row's email and a password that
  \<open>bcrypt.compare\<close> accepts against the row's hash, and the query reaches the store,
  the response is 200 with a token for that user, whatever \<open>is_active\<close> holds.
  Moreover the response to any login is the same after \<open>is_active\<close> is overwritten in
  every row in any way.
\<close>

theorem login_ignores_is_active:
  assumes up: "\<not> io_fault i 0"
      and uniq: "distinct (map u_email (users d))"
      and pk: "distinct (map c_id (companies d))"
      and u: "u \<in> set (users d)" and c: "c \<in> set (companies d)"
      and fk: "u_company_id u = Some (c_id c)"
      and email: "lb_email body = Some (u_email u)"
      and pw: "bcrypt_compare l (lb_password body) (u_password_hash u) = Inr True"
  shows "login l penv i body d
           = (json_ok
                (LoggedInJson
                   (jwt_sign l (u_id u) (c_id c) (u_role u) (JWT_SECRET penv) expiresIn_7d
                      (io_now i))
                   \<lparr>uj_firstName = Some (u_first_name u), uj_lastName = Some (u_last_name u),
                     uj_email = Some (u_email u), uj_role = u_role u\<rparr>
                   (c_id c) (c_company_name c) (c_account_status c)),
              d)
         \<and> fst (login l penv i body
                  (d\<lparr>users := map (\<lambda>u. u\<lparr>u_is_active := active u\<rparr>) (users d)\<rparr>))
             = fst (login l penv i body d)"
proof
  show "login l penv i body d
           = (json_ok
                (LoggedInJson
                   (jwt_sign l (u_id u) (c_id c) (u_role u) (JWT_SECRET penv) expiresIn_7d
                      (io_now i))
                   \<lparr>uj_firstName = Some (u_first_name u), uj_lastName = Some (u_last_name u),
                     uj_email = Some (u_email u), uj_role = u_role u\<rparr>
                   (c_id c) (c_company_name c) (c_account_status c)),
              d)"
    using select_login_rows_unique [OF uniq pk u c fk] up email pw
    by (simp add: login_def pool_query_def)
  show "fst (login l penv i body
                  (d\<lparr>users := map (\<lambda>u. u\<lparr>u_is_active := active u\<rparr>) (users d)\<rparr>))
             = fst (login l penv i body d)"
    by (rule login_response_is_active)
qed


theorem login_ignores_is_active_witness:
  "\<not> io_fault sample_io 0
   \<and> distinct (map u_email (users sample_db))
   \<and> distinct (map c_id (companies sample_db))
   \<and> sample_account 1 ''a@acme.test'' ''secret123'' False \<in> set (users sample_db)
   \<and> u_is_active (sample_account 1 ''a@acme.test'' ''secret123'' False) = Some False
   \<and> sample_company 1 ''Acme Worktops'' ''a@acme.test'' \<in> set (companies sample_db)
   \<and> bcrypt_compare sample_lib (lb_password sample_login)
         (u_password_hash (sample_account 1 ''a@acme.test'' ''secret123'' False)) = Inr True
   \<and> login sample_lib Map.empty sample_io sample_login sample_db
       = (json_ok
            (LoggedInJson ''t1''
               \<lparr>uj_firstName = Some ''Jane'', uj_lastName = Some ''Doe'',
                 uj_email = Some ''a@acme.test'', uj_role = Some ''trade_admin''\<rparr>
               1 ''Acme Worktops'' (Some ''trial'')),
          sample_db)
   \<and> fst (login sample_lib Map.empty sample_io sample_login
             (sample_db\<lparr>users := map (\<lambda>u. u\<lparr>u_is_active := Some True\<rparr>)
                (users sample_db)\<rparr>))
       = fst (login sample_lib Map.empty sample_io sample_login sample_db)"
proof -
  have up: "\<not> io_fault sample_io 0"
    by (simp add: sample_io_def)
  have uniq: "distinct (map u_email (users sample_db))"
    by (simp add: sample_db_def sample_account_def)
  have pk: "distinct (map c_id (companies sample_db))"
    by (simp add: sample_db_def sample_company_def)
  have u: "sample_account 1 ''a@acme.test'' ''secret123'' False \<in> set (users sample_db)"
    by (simp add: sample_db_def)
  have inactive: "u_is_active (sample_account 1 ''a@acme.test'' ''secret123'' False)
                    = Some False"
    by (simp add: sample_account_def)
  have c: "sample_company 1 ''Acme Worktops'' ''a@acme.test'' \<in> set (companies sample_db)"
    by (simp add: sample_db_def)
  have fk: "u_company_id (sample_account 1 ''a@acme.test'' ''secret123'' False)
              = Some (c_id (sample_company 1 ''Acme Worktops'' ''a@acme.test''))"
    by (simp add: sample_account_def sample_company_def)
  have email: "lb_email sample_login
                 = Some (u_email (sample_account 1 ''a@acme.test'' ''secret123'' False))"
    by (simp add: sample_login_def sample_account_def)
  have pw: "bcrypt_compare sample_lib (lb_password sample_login)
         (u_password_hash (sample_account 1 ''a@acme.test'' ''secret123'' False)) = Inr True"
    by (simp add: bcrypt_compare_def bcrypt_key_def sample_lib_def sample_login_def
        sample_account_def)
  have tok: "jwt_sign sample_lib 1 1 (Some ''trade_admin'') (JWT_SECRET Map.empty)
               expiresIn_7d (io_now sample_io) = ''t1''"
    by (simp add: jwt_sign_def jwt_token_def sample_lib_def)
  have row: "u_id (sample_account 1 ''a@acme.test'' ''secret123'' False) = 1"
    "u_role (sample_account 1 ''a@acme.test'' ''secret123'' False) = Some ''trade_admin''"
    "u_first_name (sample_account 1 ''a@acme.test'' ''secret123'' False) = ''Jane''"
    "u_last_name (sample_account 1 ''a@acme.test'' ''secret123'' False) = ''Doe''"
    "u_email (sample_account 1 ''a@acme.test'' ''secret123'' False) = ''a@acme.test''"
    "c_id (sample_company 1 ''Acme Worktops'' ''a@acme.test'') = 1"
    "c_company_name (sample_company 1 ''Acme Worktops'' ''a@acme.test'') = ''Acme Worktops''"
    "c_account_status (sample_company 1 ''Acme Worktops'' ''a@acme.test'') = Some ''trial''"
    by (simp_all add: sample_account_def sample_company_def)
  from login_ignores_is_active
         [OF up uniq pk u c fk email pw, where penv = Map.empty
            and active = "\<lambda>u. Some True"]
  have "login sample_lib Map.empty sample_io sample_login sample_db
       = (json_ok
            (LoggedInJson ''t1''
               \<lparr>uj_firstName = Some ''Jane'', uj_lastName = Some ''Doe'',
                 uj_email = Some ''a@acme.test'', uj_role = Some ''trade_admin''\<rparr>
               1 ''Acme Worktops'' (Some ''trial'')),
          sample_db)
   \<and> fst (login sample_lib Map.empty sample_io sample_login
             (sample_db\<lparr>users := map (\<lambda>u. u\<lparr>u_is_active := Some True\<rparr>)
                (users sample_db)\<rparr>))
       = fst (login sample_lib Map.empty sample_io sample_login sample_db)"
    unfolding row tok .
  with up uniq pk u inactive c pw show ?thesis
    by blast
qed


section \<open>Registration\<close>

lemma insert_company_Inr:
  assumes "insert_company cn e ph pc now d = (Inr cid, d2)"
  shows "companies d2 = companies d @ [last (companies d2)]
         \<and> c_id (last (companies d2)) = cid
         \<and> nullable (varchar 255) e = Some (Some (c_email (last (companies d2))))
         \<and> cid \<notin> set (map c_id (companies d))
         \<and> c_email (last (companies d2)) \<notin> set (map c_email (companies d))
         \<and> users d2 = users d \<and> company_branding d2 = company_branding d
         \<and> quotes d2 = quotes d"
  using assms
  by (auto simp: insert_company_def Let_def split: option.splits if_splits)

lemma insert_company_Inl:
  assumes "insert_company cn e ph pc now d = (Inl err, d2)"
  shows "companies d2 = companies d \<and> users d2 = users d
         \<and> company_branding d2 = company_branding d \<and> quotes d2 = quotes d"
  using assms
  by (auto simp: insert_company_def Let_def split: option.splits if_splits)

lemma insert_branding_Inr:
  assumes "insert_branding cid now d = (Inr x, d2)"
  shows "company_branding d2 = company_branding d @ [last (company_branding d2)]
         \<and> b_company_id (last (company_branding d2)) = Some cid
         \<and> Some cid \<notin> set (map b_company_id (company_branding d))
         \<and> companies d2 = companies d \<and> users d2 = users d \<and> quotes d2 = quotes d"
  using assms
  by (auto simp: insert_branding_def Let_def split: if_splits)

lemma insert_branding_Inl:
  assumes "insert_branding cid now d = (Inl err, d2)"
  shows "companies d2 = companies d \<and> users d2 = users d
         \<and> company_branding d2 = company_branding d \<and> quotes d2 = quotes d"
  using assms
  by (auto simp: insert_branding_def Let_def split: if_splits)

lemma insert_user_Inr:
  assumes "insert_user cid e h fnm lnm ph now d = (Inr uid, d2)"
  shows "users d2 = users d @ [last (users d2)]
         \<and> u_id (last (users d2)) = uid
         \<and> u_company_id (last (users d2)) = Some cid
         \<and> nullable (varchar 255) e = Some (Some (u_email (last (users d2))))
         \<and> u_email (last (users d2)) \<notin> set (map u_email (users d))
         \<and> companies d2 = companies d \<and> company_branding d2 = company_branding d
         \<and> quotes d2 = quotes d"
  using assms
  by (auto simp: insert_user_def Let_def split: option.splits if_splits)

lemma insert_user_Inl:
  assumes "insert_user cid e h fnm lnm ph now d = (Inl err, d2)"
  shows "companies d2 = companies d \<and> users d2 = users d
         \<and> company_branding d2 = company_branding d \<and> quotes d2 = quotes d"
  using assms
  by (auto simp: insert_user_def Let_def split: option.splits if_splits)

lemma pool_query_Inr:
  "pool_query i k stmt d = (Inr x, d2) \<Longrightarrow> stmt d = (Inr x, d2)"
  by (simp add: pool_query_def split: if_splits)


lemma pool_insert_company_Inl:
  assumes "pool_query i k (insert_company cn e ph pc now) d = (Inl err, d2)"
  shows "companies d2 = companies d \<and> users d2 = users d
         \<and> company_branding d2 = company_branding d \<and> quotes d2 = quotes d"
  using assms insert_company_Inl [of cn e ph pc now d err d2]
  by (auto simp: pool_query_def split: if_splits)

lemma pool_insert_branding_Inl:
  assumes "pool_query i k (insert_branding cid now) d = (Inl err, d2)"
  shows "companies d2 = companies d \<and> users d2 = users d
         \<and> company_branding d2 = company_branding d \<and> quotes d2 = quotes d"
  using assms insert_branding_Inl [of cid now d err d2]
  by (auto simp: pool_query_def split: if_splits)

lemma pool_insert_user_Inl:
  assumes "pool_query i k (insert_user cid e h fnm lnm ph now) d = (Inl err, d2)"
  shows "companies d2 = companies d \<and> users d2 = users d
         \<and> company_branding d2 = company_branding d \<and> quotes d2 = quotes d"
  using assms insert_user_Inl [of cid e h fnm lnm ph now d err d2]
  by (auto simp: pool_query_def split: if_splits)

lemmas register_eval = register_def pool_query_def select_user_ids_by_email_def
  insert_company_def insert_branding_def insert_user_def bcrypt_hash_def bcrypt_key_def
  jwt_sign_def
  jwt_token_def varchar_def nullable_def pwhash_col_def password_hash_width_def
  integers_def int4_def
  sample_lib_def sample_io_def new_tenant_def sample_db_def Let_def json_ok_def
  json_error_def sample_account_def sample_company_def sample_branding_def



subsection \<open>The store under the interface\<close>

lemma login_store [simp]: "snd (login l penv i body d) = d"
  by (simp add: login_def pool_query_def select_login_rows_def
      split: sum.splits list.splits prod.splits)

lemma get_me_store [simp]: "snd (get_me i user d) = d"
  by (simp add: get_me_def pool_query_def select_me_def split: list.splits)

lemma get_branding_store [simp]: "snd (get_branding i user d) = d"
  by (simp add: get_branding_def pool_query_def select_branding_def split: list.splits)

lemma get_quotes_store [simp]: "snd (get_quotes i user d) = d"
  by (simp add: get_quotes_def pool_query_def select_quotes_def)

lemma get_quote_store [simp]: "snd (get_quote i user quote_id d) = d"
  by (simp add: get_quote_def pool_query_def select_quote_def split: list.splits)

lemma post_quotes_effect:
  "companies (snd (post_quotes i user body d)) = companies d
   \<and> users (snd (post_quotes i user body d)) = users d
   \<and> company_branding (snd (post_quotes i user body d)) = company_branding d
   \<and> (quotes (snd (post_quotes i user body d)) = quotes d
      \<or> (\<exists>row. quotes (snd (post_quotes i user body d)) = quotes d @ [row]))"
  by (simp add: post_quotes_def pool_query_def insert_quote_def Let_def split: option.splits)

lemma patch_quote_status_effect:
  "companies (snd (patch_quote_status i user quote_id status d)) = companies d
   \<and> users (snd (patch_quote_status i user quote_id status d)) = users d
   \<and> company_branding (snd (patch_quote_status i user quote_id status d)) = company_branding d
   \<and> (quotes (snd (patch_quote_status i user quote_id status d)) = quotes d
      \<or> (\<exists>st. quotes (snd (patch_quote_status i user quote_id status d))
             = map (\<lambda>q. if q_id q = quote_id \<and> q_company_id q = Some (companyId user)
                        then q\<lparr>q_status := st\<rparr> else q) (quotes d)))"
  by (auto simp: patch_quote_status_def pool_query_def update_quote_status_def
      split: option.splits)

lemma register_outcome_company:
  assumes "c_id c \<notin> set (map c_id (companies d))"
      and "c_email c \<notin> set (map c_email (companies d))"
      and "companies d' = companies d @ [c]"
      and "company_branding d' = company_branding d" "users d' = users d"
      and "quotes d' = quotes d"
  shows "register_outcome d d'"
  unfolding register_outcome_def using assms by blast

lemma register_outcome_branding:
  assumes "c_id c \<notin> set (map c_id (companies d))"
      and "c_email c \<notin> set (map c_email (companies d))"
      and "companies d' = companies d @ [c]"
      and "b_company_id b = Some (c_id c)"
      and "Some (c_id c) \<notin> set (map b_company_id (company_branding d))"
      and "company_branding d' = company_branding d @ [b]" "users d' = users d"
      and "quotes d' = quotes d"
  shows "register_outcome d d'"
  unfolding register_outcome_def using assms by blast

lemma register_outcome_user:
  assumes "c_id c \<notin> set (map c_id (companies d))"
      and "c_email c \<notin> set (map c_email (companies d))"
      and "companies d' = companies d @ [c]"
      and "b_company_id b = Some (c_id c)"
      and "Some (c_id c) \<notin> set (map b_company_id (company_branding d))"
      and "company_branding d' = company_branding d @ [b]"
      and "u_company_id u = Some (c_id c)" "u_email u = c_email c"
      and "u_email u \<notin> set (map u_email (users d))"
      and "users d' = users d @ [u]"
      and "quotes d' = quotes d"
  shows "register_outcome d d'"
  unfolding register_outcome_def using assms by blast

lemma register_effect: "register_outcome d (snd (register l penv i body d))"
proof -
  obtain r1 d1 where
    s: "pool_query i 0 (select_user_ids_by_email (rb_email body)) d = (r1, d1)"
    by fastforce
  then have d1: "d1 = d"
    by (auto simp: pool_query_def select_user_ids_by_email_def split: if_splits)
  show ?thesis
  proof (cases r1)
    case (Inl err)
    with s d1 have "snd (register l penv i body d) = d"
      by (simp add: register_def)
    then show ?thesis by (simp add: register_outcome_def)
  next
    case existing: (Inr existing)
    show ?thesis
    proof (cases "length existing > 0")
      case True
      with s d1 existing have "snd (register l penv i body d) = d"
        by (simp add: register_def)
      then show ?thesis by (simp add: register_outcome_def)
    next
      case False
      obtain r2 d2 where
        ins: "pool_query i 1
                (insert_company (rb_companyName body) (rb_email body) (rb_phone body)
                   (rb_postcode body) (io_now i)) d = (r2, d2)"
        by fastforce
      show ?thesis
      proof (cases r2)
        case (Inl err)
        with s d1 existing False ins
        have "snd (register l penv i body d) = d2"
          by (simp add: register_def)
        with pool_insert_company_Inl [OF ins [unfolded Inl]] show ?thesis
          by (simp add: register_outcome_def)
      next
        case cid: (Inr cid)
        from insert_company_Inr [OF pool_query_Inr [OF ins [unfolded cid]]]
        have c2: "companies d2 = companies d @ [last (companies d2)]"
          "c_id (last (companies d2)) = cid"
          "nullable (varchar 255) (rb_email body) = Some (Some (c_email (last (companies d2))))"
          "c_id (last (companies d2)) \<notin> set (map c_id (companies d))"
          "c_email (last (companies d2)) \<notin> set (map c_email (companies d))"
          "users d2 = users d" "company_branding d2 = company_branding d"
          "quotes d2 = quotes d"
          by simp_all
        obtain r3 d3 where b: "pool_query i 2 (insert_branding cid (io_now i)) d2 = (r3, d3)"
          by fastforce
        show ?thesis
        proof (cases r3)
          case (Inl err)
          with s d1 existing False ins cid b
          have "snd (register l penv i body d) = d3"
            by (simp add: register_def)
          with pool_insert_branding_Inl [OF b [unfolded Inl]] c2 show ?thesis
            by (intro register_outcome_company [where c = "last (companies d2)"]) simp_all
        next
          case x: (Inr x)
          from insert_branding_Inr [OF pool_query_Inr [OF b [unfolded x]]]
          have c3: "company_branding d3 = company_branding d2 @ [last (company_branding d3)]"
            "b_company_id (last (company_branding d3)) = Some cid"
            "Some cid \<notin> set (map b_company_id (company_branding d2))"
            "companies d3 = companies d2" "users d3 = users d2" "quotes d3 = quotes d2"
            by simp_all
          have partial: "register_outcome d d'"
            if "companies d' = companies d3" "company_branding d' = company_branding d3"
              "users d' = users d3" "quotes d' = quotes d3" for d'
            using that c2 c3
            by (intro register_outcome_branding [where c = "last (companies d2)"
                  and b = "last (company_branding d3)"]) simp_all
          show ?thesis
          proof (cases "bcrypt_hash l (rb_password body) 10 (io_salt i)")
            case (Inl err)
            with s d1 existing False ins cid b x
            have "snd (register l penv i body d) = d3"
              by (simp add: register_def)
            with partial show ?thesis by simp
          next
            case h: (Inr passwordHash)
            obtain r4 d4 where
              u: "pool_query i 3
                    (insert_user cid (rb_email body) passwordHash (rb_firstName body)
                       (rb_lastName body) (rb_phone body) (io_now i)) d3 = (r4, d4)"
              by fastforce
            show ?thesis
            proof (cases r4)
              case (Inl err)
              with s d1 existing False ins cid b x h u
              have "snd (register l penv i body d) = d4"
                by (simp add: register_def)
              with partial pool_insert_user_Inl [OF u [unfolded Inl]] show ?thesis
                by simp
            next
              case uid: (Inr user_id)
              from insert_user_Inr [OF pool_query_Inr [OF u [unfolded uid]]]
              have c4: "users d4 = users d3 @ [last (users d4)]"
                "u_company_id (last (users d4)) = Some cid"
                "nullable (varchar 255) (rb_email body) = Some (Some (u_email (last (users d4))))"
                "u_email (last (users d4)) \<notin> set (map u_email (users d3))"
                "companies d4 = companies d3" "company_branding d4 = company_branding d3"
                "quotes d4 = quotes d3"
                by simp_all
              from s d1 existing False ins cid b x h u uid
              have "snd (register l penv i body d) = d4"
                by (simp add: register_def)
              moreover have "register_outcome d d4"
                using c2 c3 c4
                by (intro register_outcome_user [where c = "last (companies d2)"
                      and b = "last (company_branding d3)" and u = "last (users d4)"])
                   simp_all
              ultimately show ?thesis by simp
            qed
          qed
        qed
      qed
    qed
  qed
qed

lemma tenant_inv_empty: "tenant_inv empty_db"
  by (simp add: tenant_inv_def keys_inv_def empty_db_def user_keys_def company_keys_def
      branding_keys_def)

lemma tenant_inv_register:
  assumes "register_outcome d d'" and "tenant_inv d"
  shows "tenant_inv d'"
  using assms
  unfolding register_outcome_def tenant_inv_def keys_inv_def user_keys_def company_keys_def
    branding_keys_def
  by (auto simp: list_all_iff comp_def image_iff split: option.splits)

lemma list_all2_map_eq:
  assumes "list_all2 R xs ys" and "\<And>x y. R x y \<Longrightarrow> f y = f x"
  shows "map f ys = map f xs"
  using assms by (induction rule: list_all2_induct) auto

lemma put_branding_keys:
  "company_keys (snd (put_branding i user body d)) = company_keys d
   \<and> branding_keys (snd (put_branding i user body d)) = branding_keys d
   \<and> user_keys (snd (put_branding i user body d)) = user_keys d"
proof -
  from put_branding_frame [of i user body d]
  have kept: "list_all2 (branding_kept (companyId user) body) (company_branding d)
          (company_branding (snd (put_branding i user body d)))"
    and same: "companies (snd (put_branding i user body d)) = companies d"
      "users (snd (put_branding i user body d)) = users d"
    by simp_all
  from kept have "map b_company_id (company_branding (snd (put_branding i user body d)))
               = map b_company_id (company_branding d)"
    by (rule list_all2_map_eq) (simp add: branding_kept_def)
  with same show ?thesis
    by (simp add: company_keys_def branding_keys_def user_keys_def)
qed

lemma put_company_keys:
  "company_keys (snd (put_company i user body d)) = company_keys d
   \<and> branding_keys (snd (put_company i user body d)) = branding_keys d
   \<and> user_keys (snd (put_company i user body d)) = user_keys d"
proof -
  from put_company_frame [of i user body d]
  have kept: "list_all2 (company_kept (companyId user) body) (companies d)
          (companies (snd (put_company i user body d)))"
    and same: "company_branding (snd (put_company i user body d)) = company_branding d"
      "users (snd (put_company i user body d)) = users d"
    by simp_all
  from kept have "map (\<lambda>c. (c_id c, c_email c)) (companies (snd (put_company i user body d)))
               = map (\<lambda>c. (c_id c, c_email c)) (companies d)"
    by (rule list_all2_map_eq) (simp add: company_kept_def)
  with same show ?thesis
    by (simp add: company_keys_def branding_keys_def user_keys_def)
qed

lemma tenant_inv_handle:
  assumes "tenant_inv d"
  shows "tenant_inv (snd (handle l penv i r d))"
proof (cases r)
  case (PostRegister body)
  with assms register_effect [of d l penv i body] show ?thesis
    by (simp add: tenant_inv_register)
next
  case (PutBranding h body)
  with assms put_branding_keys show ?thesis
    by (auto simp: authenticated_def tenant_inv_def split: sum.splits)
next
  case (PutCompany h body)
  with assms put_company_keys show ?thesis
    by (auto simp: authenticated_def tenant_inv_def split: sum.splits)
next
  case (PostQuotes h body)
  with assms post_quotes_effect show ?thesis
    by (auto simp: authenticated_def tenant_inv_def company_keys_def branding_keys_def
        user_keys_def split: sum.splits)
next
  case (PatchQuoteStatus h quote_id status)
  with assms patch_quote_status_effect show ?thesis
    by (auto simp: authenticated_def tenant_inv_def company_keys_def branding_keys_def
        user_keys_def split: sum.splits)
qed (use assms in \<open>auto simp: authenticated_def split: sum.splits\<close>)

lemma tenant_inv_run:
  "tenant_inv d \<Longrightarrow> tenant_inv (run l penv rs d)"
  by (induction rs arbitrary: d) (auto simp: tenant_inv_handle)

lemma tenant_inv_one_triple:
  assumes inv: "tenant_inv d" and u: "u \<in> set (users d)"
  shows "\<exists>c b. filter (\<lambda>c. c_email c = u_email u) (companies d) = [c]
           \<and> filter (\<lambda>u'. u_email u' = u_email u) (users d) = [u]
           \<and> filter (\<lambda>b. b_company_id b = Some (c_id c)) (company_branding d) = [b]
           \<and> u_company_id u = Some (c_id c)
           \<and> tenant_triples (u_email u) d = [(c, u, b)]"
proof -
  from inv have du: "distinct (map u_email (users d))"
    and dc: "distinct (map c_email (companies d))"
    and db: "distinct (map b_company_id (company_branding d))"
    by (simp_all add: tenant_inv_def keys_inv_def user_keys_def company_keys_def
        branding_keys_def comp_def)
  from inv u obtain cid where cid: "u_company_id u = Some cid"
    and ck: "(cid, u_email u) \<in> set (company_keys d)"
    and bk: "Some cid \<in> set (branding_keys d)"
    by (auto simp: tenant_inv_def keys_inv_def user_keys_def list_all_iff
        split: option.splits)
  from ck obtain c where c: "c \<in> set (companies d)" "c_id c = cid" "c_email c = u_email u"
    by (auto simp: company_keys_def)
  from bk obtain b where b: "b \<in> set (company_branding d)" "b_company_id b = Some cid"
    by (auto simp: branding_keys_def)
  have fu: "filter (\<lambda>u'. u_email u' = u_email u) (users d) = [u]"
    using du u by (rule filter_unique_key)
  have fc: "filter (\<lambda>c'. c_email c' = u_email u) (companies d) = [c]"
    using filter_unique_key [OF dc c(1)] c(3) by simp
  have fb: "filter (\<lambda>b'. b_company_id b' = Some (c_id c)) (company_branding d) = [b]"
    using filter_unique_key [OF db b(1)] b(2) c(2) by simp
  have fu': "filter (\<lambda>u'. u_email u' = u_email u \<and> u_company_id u' = Some (c_id c)) (users d)
               = [u]"
  proof -
    have "filter (\<lambda>u'. u_email u' = u_email u \<and> u_company_id u' = Some (c_id c)) (users d)
          = filter (\<lambda>u'. u_company_id u' = Some (c_id c))
              (filter (\<lambda>u'. u_email u' = u_email u) (users d))"
      by (simp add: conj_commute)
    also have "\<dots> = [u]"
      unfolding fu using cid c(2) by simp
    finally show ?thesis .
  qed
  have "tenant_triples (u_email u) d = [(c, u, b)]"
    unfolding tenant_triples_def
    by (simp add: concat_map_if fc fu' fb del: concat_eq_Nil_conv)
  with fc fu fb cid c(2) show ?thesis
    by blast
qed

text \<open>
  C7.  When \<open>POST /api/register\<close> carries the email of an existing user and its first
  query reaches the store, the response is 400 \<open>Email already registered\<close> and the store
  is the one before the request: no insert ran.  If moreover the store is one that the
  interface has built from the empty store, by any requests whatever, there is exactly
  one company with that email, exactly one user with it, who belongs to that company,
  exactly one branding row of that company, and so exactly one triple.
\<close>

theorem register_existing_email_rejected:
  assumes u: "u \<in> set (users d)"
      and email: "rb_email body = Some (u_email u)"
      and up: "\<not> io_fault i 0"
  shows "register l penv i body d = (json_error 400 ''Email already registered'', d)
       \<and> (\<forall>rs. d = run l penv rs empty_db \<longrightarrow>
            (\<exists>c b. filter (\<lambda>c. c_email c = u_email u) (companies d) = [c]
               \<and> filter (\<lambda>u'. u_email u' = u_email u) (users d) = [u]
               \<and> filter (\<lambda>b. b_company_id b = Some (c_id c)) (company_branding d) = [b]
               \<and> u_company_id u = Some (c_id c)
               \<and> tenant_triples (u_email u) d = [(c, u, b)]))"
proof (intro conjI allI impI)
  have "filter (\<lambda>u'. u_email u' = u_email u) (users d) \<noteq> []"
    using u by (auto simp: filter_empty_conv)
  then show "register l penv i body d = (json_error 400 ''Email already registered'', d)"
    using email up
    by (simp add: register_def pool_query_def select_user_ids_by_email_def)
next
  fix rs assume "d = run l penv rs empty_db"
  then have "tenant_inv d"
    by (simp add: tenant_inv_run tenant_inv_empty)
  then show "\<exists>c b. filter (\<lambda>c. c_email c = u_email u) (companies d) = [c]
               \<and> filter (\<lambda>u'. u_email u' = u_email u) (users d) = [u]
               \<and> filter (\<lambda>b. b_company_id b = Some (c_id c)) (company_branding d) = [b]
               \<and> u_company_id u = Some (c_id c)
               \<and> tenant_triples (u_email u) d = [(c, u, b)]"
    using u by (rule tenant_inv_one_triple)
qed

theorem register_existing_email_rejected_witness:
  "register sample_lib Map.empty sample_io (new_tenant\<lparr>rb_companyName := Some ''Copycat''\<rparr>)
      (run sample_lib Map.empty [(sample_io, PostRegister new_tenant)] empty_db)
     = (json_error 400 ''Email already registered'',
        run sample_lib Map.empty [(sample_io, PostRegister new_tenant)] empty_db)
   \<and> length (tenant_triples ''d@granite.test''
        (run sample_lib Map.empty [(sample_io, PostRegister new_tenant)] empty_db)) = 1
   \<and> length (filter (\<lambda>c. c_email c = ''d@granite.test'')
        (companies (run sample_lib Map.empty [(sample_io, PostRegister new_tenant)] empty_db)))
       = 1
   \<and> length (filter (\<lambda>u. u_email u = ''d@granite.test'')
        (users (run sample_lib Map.empty [(sample_io, PostRegister new_tenant)] empty_db)))
       = 1"
proof -
  let ?d = "run sample_lib Map.empty [(sample_io, PostRegister new_tenant)] empty_db"
  let ?u = "\<lparr>u_id = 1, u_company_id = Some 1, u_email = ''d@granite.test'',
             u_password_hash = \<lparr>ph_cost = 10, ph_salt = ''salt'', ph_digest = ''salthunter2''\<rparr>,
             u_first_name = ''Sam'', u_last_name = ''Stone'', u_phone = None,
             u_role = Some ''trade_admin'', u_is_active = Some True,
             u_created_at = Some 2000\<rparr>"
  have u: "?u \<in> set (users ?d)"
    by (simp add: register_eval empty_db_def)
  have email: "rb_email (new_tenant\<lparr>rb_companyName := Some ''Copycat''\<rparr>) = Some (u_email ?u)"
    by (simp add: new_tenant_def)
  have up: "\<not> io_fault sample_io 0"
    by (simp add: sample_io_def)
  from register_existing_email_rejected [OF u email up, of sample_lib Map.empty]
  have r: "register sample_lib Map.empty sample_io
             (new_tenant\<lparr>rb_companyName := Some ''Copycat''\<rparr>) ?d
           = (json_error 400 ''Email already registered'', ?d)"
    and "\<exists>c b. filter (\<lambda>c. c_email c = u_email ?u) (companies ?d) = [c]
           \<and> filter (\<lambda>u'. u_email u' = u_email ?u) (users ?d) = [?u]
           \<and> filter (\<lambda>b. b_company_id b = Some (c_id c)) (company_branding ?d) = [b]
           \<and> u_company_id ?u = Some (c_id c)
           \<and> tenant_triples (u_email ?u) ?d = [(c, ?u, b)]"
    by blast+
  then obtain c b where
    "filter (\<lambda>c. c_email c = u_email ?u) (companies ?d) = [c]"
    "filter (\<lambda>u'. u_email u' = u_email ?u) (users ?d) = [?u]"
    "tenant_triples (u_email ?u) ?d = [(c, ?u, b)]"
    by blast
  then have "length (tenant_triples ''d@granite.test'' ?d) = 1"
    "length (filter (\<lambda>c. c_email c = ''d@granite.test'') (companies ?d)) = 1"
    "length (filter (\<lambda>u. u_email u = ''d@granite.test'') (users ?d)) = 1"
    by simp_all
  with r show ?thesis by blast
qed

section \<open>Quote rows after creation\<close>

lemma same_but_status_refl [simp]: "same_but_status q q"
  by (simp add: same_but_status_def)

lemma same_but_status_trans:
  "same_but_status q q' \<Longrightarrow> same_but_status q' q'' \<Longrightarrow> same_but_status q q''"
  by (simp add: same_but_status_def)

lemma same_but_status_fields:
  assumes "same_but_status q q'"
  shows "q_id q' = q_id q \<and> q_company_id q' = q_company_id q
         \<and> q_created_by q' = q_created_by q \<and> q_quote_reference q' = q_quote_reference q"
proof -
  from assms have e: "q'\<lparr>q_status := None\<rparr> = q\<lparr>q_status := None\<rparr>"
    by (simp add: same_but_status_def)
  have "q_id (q'\<lparr>q_status := None\<rparr>) = q_id (q\<lparr>q_status := None\<rparr>)"
    "q_company_id (q'\<lparr>q_status := None\<rparr>) = q_company_id (q\<lparr>q_status := None\<rparr>)"
    "q_created_by (q'\<lparr>q_status := None\<rparr>) = q_created_by (q\<lparr>q_status := None\<rparr>)"
    "q_quote_reference (q'\<lparr>q_status := None\<rparr>) = q_quote_reference (q\<lparr>q_status := None\<rparr>)"
    by (simp_all only: e)
  then show ?thesis by simp
qed

lemma quote_kept_same_but_status:
  "quote_kept l penv i r q q' \<Longrightarrow> same_but_status q q'"
  by (auto simp: quote_kept_def split: request.splits sum.splits)

lemma handle_quotes:
  "\<exists>qs new. quotes (snd (handle l penv i r d)) = qs @ new
     \<and> list_all2 (quote_kept l penv i r) (quotes d) qs"
proof -
  have same: ?thesis if "quotes (snd (handle l penv i r d)) = quotes d"
  proof -
    have "quotes (snd (handle l penv i r d)) = quotes d @ []"
      using that by simp
    moreover have "list_all2 (quote_kept l penv i r) (quotes d) (quotes d)"
      by (simp add: list_all2_same quote_kept_def)
    ultimately show ?thesis by blast
  qed
  show ?thesis
  proof (cases r)
    case (PostRegister body)
    with register_effect [of d l penv i body] show ?thesis
      by (intro same) (simp add: register_outcome_def)
  next
    case (PutBranding h body)
    with put_branding_frame show ?thesis
      by (intro same) (auto simp: authenticated_def split: sum.splits)
  next
    case (PutCompany h body)
    with put_company_frame show ?thesis
      by (intro same) (auto simp: authenticated_def split: sum.splits)
  next
    case (PostQuotes h body)
    show ?thesis
    proof (cases "authenticateToken l penv i h")
      case (Inl res)
      with PostQuotes show ?thesis
        by (intro same) (simp add: authenticated_def)
    next
      case (Inr user)
      with PostQuotes have "snd (handle l penv i r d) = snd (post_quotes i user body d)"
        by (simp add: authenticated_def)
      with post_quotes_effect [of i user body d]
      have "quotes (snd (handle l penv i r d)) = quotes d
            \<or> (\<exists>row. quotes (snd (handle l penv i r d)) = quotes d @ [row])"
        by simp
      moreover have "list_all2 (quote_kept l penv i r) (quotes d) (quotes d)"
        by (simp add: list_all2_same quote_kept_def)
      ultimately show ?thesis
        using same by blast
    qed
  next
    case (PatchQuoteStatus h quote_id status)
    show ?thesis
    proof (cases "authenticateToken l penv i h")
      case (Inl res)
      with PatchQuoteStatus show ?thesis
        by (intro same) (simp add: authenticated_def)
    next
      case (Inr user)
      with PatchQuoteStatus
      have eq: "snd (handle l penv i r d) = snd (patch_quote_status i user quote_id status d)"
        by (simp add: authenticated_def)
      from patch_quote_status_effect [of i user quote_id status d]
      consider "quotes (snd (handle l penv i r d)) = quotes d"
        | st where "quotes (snd (handle l penv i r d))
             = map (\<lambda>q. if q_id q = quote_id \<and> q_company_id q = Some (companyId user)
                        then q\<lparr>q_status := st\<rparr> else q) (quotes d)"
        unfolding eq by blast
      then show ?thesis
      proof cases
        case 1
        then show ?thesis by (rule same)
      next
        case 2
        have "list_all2 (quote_kept l penv i r) (quotes d)
                (map (\<lambda>q. if q_id q = quote_id \<and> q_company_id q = Some (companyId user)
                        then q\<lparr>q_status := st\<rparr> else q) (quotes d))"
          using PatchQuoteStatus Inr
          by (simp add: list_all2_map2 list_all2_same quote_kept_def same_but_status_def)
        with 2 show ?thesis
          by (metis append_Nil2)
      qed
    qed
  qed (rule same, simp add: authenticated_def split: sum.splits)+
qed

lemma run_quotes:
  "\<exists>qs new. quotes (run l penv rs d) = qs @ new \<and> list_all2 same_but_status (quotes d) qs"
proof (induction rs arbitrary: d)
  case Nil
  have "quotes d = quotes d @ []" by simp
  moreover have "list_all2 same_but_status (quotes d) (quotes d)"
    by (simp add: list_all2_same)
  ultimately show ?case
    by (metis run.simps(1))
next
  case (Cons a rs)
  obtain i r where a: "a = (i, r)" by (cases a)
  let ?d1 = "snd (handle l penv i r d)"
  from handle_quotes [of l penv i r d] obtain qs1 new1 where
    h: "quotes ?d1 = qs1 @ new1" "list_all2 (quote_kept l penv i r) (quotes d) qs1"
    by blast
  from Cons.IH [of ?d1] obtain qs2 new2 where
    t: "quotes (run l penv rs ?d1) = qs2 @ new2" "list_all2 same_but_status (quotes ?d1) qs2"
    by blast
  from t(2) h(1) obtain us vs where
    s: "qs2 = us @ vs" "list_all2 same_but_status qs1 us"
    by (auto simp: list_all2_append1)
  from h(2) have "list_all2 same_but_status (quotes d) qs1"
    by (rule list_all2_mono) (rule quote_kept_same_but_status)
  from list_all2_trans [OF same_but_status_trans this s(2)]
  have "list_all2 same_but_status (quotes d) us" .
  moreover have "quotes (run l penv (a # rs) d) = us @ (vs @ new2)"
    using a t(1) s(1) by simp
  ultimately show ?case by blast
qed

lemmas quotes_eval = authenticated_def authenticateToken_def bearer_token_def jwt_verify_def
  JWT_SECRET_def sample_token_def expiresIn_7d_def patch_quote_status_def
  update_quote_status_def post_quotes_def insert_quote_def quote_row_def generateQuoteRef_def
  pool_query_def varchar_def nullable_def text_col_def int4_def decimal_10_2_def
  integers_def sample_lib_def sample_io_def sample_db_def sample_quote_def sample_quote_body_def
  sample_company_def sample_account_def Let_def json_ok_def json_error_def

text \<open>
  C8.  No request of the interface changes a quote row except in \<open>status\<close>.  After one
  request the table \<open>quotes\<close> is its former rows, each related to its former self by
  \<open>quote_kept\<close>, followed by the rows the request created: a row is changed only by a
  \<open>PATCH /api/quotes/:id/status\<close> with that row's id, from a caller whose verified
  token carries that row's company, and then in \<open>status\<close> alone.  After any sequence of
  requests every former row still has its \<open>company_id\<close>, \<open>created_by\<close> and
  \<open>quote_reference\<close>, and every other column but \<open>status\<close>.
\<close>

theorem quote_rows_change_only_in_status:
  "(\<exists>qs new. quotes (snd (handle l penv i r d)) = qs @ new
       \<and> list_all2 (quote_kept l penv i r) (quotes d) qs)
   \<and> (\<exists>qs new. quotes (run l penv rs d) = qs @ new
       \<and> list_all2 (\<lambda>q q'. same_but_status q q'
                      \<and> q_company_id q' = q_company_id q
                      \<and> q_created_by q' = q_created_by q
                      \<and> q_quote_reference q' = q_quote_reference q)
            (quotes d) qs)"
proof
  show "\<exists>qs new. quotes (snd (handle l penv i r d)) = qs @ new
       \<and> list_all2 (quote_kept l penv i r) (quotes d) qs"
    by (rule handle_quotes)
  from run_quotes [of l penv rs d] obtain qs new where
    q: "quotes (run l penv rs d) = qs @ new" "list_all2 same_but_status (quotes d) qs"
    by blast
  from q(2) have "list_all2 (\<lambda>q q'. same_but_status q q'
                      \<and> q_company_id q' = q_company_id q
                      \<and> q_created_by q' = q_created_by q
                      \<and> q_quote_reference q' = q_quote_reference q)
            (quotes d) qs"
    by (rule list_all2_mono) (simp add: same_but_status_fields)
  with q(1) show "\<exists>qs new. quotes (run l penv rs d) = qs @ new
       \<and> list_all2 (\<lambda>q q'. same_but_status q q'
                      \<and> q_company_id q' = q_company_id q
                      \<and> q_created_by q' = q_created_by q
                      \<and> q_quote_reference q' = q_quote_reference q)
            (quotes d) qs"
    by blast
qed

theorem quote_rows_change_only_in_status_witness:
  "map (\<lambda>q. (q_id q, q_company_id q, q_created_by q, q_quote_reference q, q_status q))
     (quotes (run sample_lib Map.empty
        [(sample_io, PatchQuoteStatus (Some ''Bearer t1'') 1 (Some ''accepted'')),
         (sample_io, PatchQuoteStatus (Some ''Bearer t2'') 1 (Some ''sent'')),
         (sample_io\<lparr>io_random := 4321\<rparr>, PostQuotes (Some ''Bearer t2'') sample_quote_body)]
        sample_db))
     = [(1, Some 2, Some 2, ''PW-2026-1234'', Some ''sent''),
        (2, Some 2, Some 2, ''PW-2026-5321'', Some ''draft'')]
   \<and> (\<exists>qs new. quotes (snd (handle sample_lib Map.empty sample_io
              (PatchQuoteStatus (Some ''Bearer t1'') 1 (Some ''accepted'')) sample_db))
            = qs @ new
       \<and> list_all2 (quote_kept sample_lib Map.empty sample_io
              (PatchQuoteStatus (Some ''Bearer t1'') 1 (Some ''accepted'')))
            (quotes sample_db) qs)
   \<and> (\<exists>qs new. quotes (run sample_lib Map.empty
        [(sample_io, PatchQuoteStatus (Some ''Bearer t1'') 1 (Some ''accepted'')),
         (sample_io, PatchQuoteStatus (Some ''Bearer t2'') 1 (Some ''sent'')),
         (sample_io\<lparr>io_random := 4321\<rparr>, PostQuotes (Some ''Bearer t2'') sample_quote_body)]
        sample_db) = qs @ new
       \<and> list_all2 (\<lambda>q q'. same_but_status q q'
                      \<and> q_company_id q' = q_company_id q
                      \<and> q_created_by q' = q_created_by q
                      \<and> q_quote_reference q' = q_quote_reference q)
            (quotes sample_db) qs)"
proof -
  have ev: "map (\<lambda>q. (q_id q, q_company_id q, q_created_by q, q_quote_reference q, q_status q))
     (quotes (run sample_lib Map.empty
        [(sample_io, PatchQuoteStatus (Some ''Bearer t1'') 1 (Some ''accepted'')),
         (sample_io, PatchQuoteStatus (Some ''Bearer t2'') 1 (Some ''sent'')),
         (sample_io\<lparr>io_random := 4321\<rparr>, PostQuotes (Some ''Bearer t2'') sample_quote_body)]
        sample_db))
     = [(1, Some 2, Some 2, ''PW-2026-1234'', Some ''sent''),
        (2, Some 2, Some 2, ''PW-2026-5321'', Some ''draft'')]"
    by (simp add: quotes_eval)
  show ?thesis
    using quote_rows_change_only_in_status
            [where l = sample_lib and penv = Map.empty and i = sample_io
               and r = "PatchQuoteStatus (Some ''Bearer t1'') 1 (Some ''accepted'')"
               and d = sample_db
               and rs = "[(sample_io, PatchQuoteStatus (Some ''Bearer t1'') 1 (Some ''accepted'')),
         (sample_io, PatchQuoteStatus (Some ''Bearer t2'') 1 (Some ''sent'')),
         (sample_io\<lparr>io_random := 4321\<rparr>, PostQuotes (Some ''Bearer t2'') sample_quote_body)]"]
          ev
    by blast
qed

section \<open>Passwords\<close>




end
